theory Spec2Isabelle
  imports Main "HOL-Library.Sublist"
begin

section \<open>The syntax tree of the Mini language\<close>

text \<open>
  The node classes live in the package \<^verbatim>\<open>miniast\<close>; the two visitors read the
  attributes listed here. A name node is an identifier whose \<^verbatim>\<open>id\<close> is a string,
  so \<^verbatim>\<open>Name(node)\<close> is that string. Every node carries \<^verbatim>\<open>linenum\<close>; it is kept
  where a visitor reads it.
\<close>

datatype type_node =
    IntType
  | BoolType
  | StructType string int

datatype return_type_node =
    ReturnTypeVoid
  | ReturnTypeReal type_node

datatype decl_node = Declaration (d_name: string) (d_type: type_node) (d_linenum: int)

datatype type_declaration =
  TypeDeclaration (td_name: string) (td_fields: "decl_node list") (td_linenum: int)

datatype expression =
    IntegerExpression int int
  | TrueExpression int
  | FalseExpression int
  | NullExpression int
  | ReadExpression int
  | IdentifierExpression string int
  | DotExpression expression string int
  | UnaryExpression string expression int
  | BinaryExpression string expression expression int
  | InvocationExpression string "expression list" int
  | NewExpression string int

text \<open>
  \<^verbatim>\<open>LValueDot\<close> has the attributes \<^verbatim>\<open>left\<close> (an lvalue) and \<^verbatim>\<open>id\<close>, which the
  code generator reads; the analyzer reads \<^verbatim>\<open>lhs\<close> with a default of \<^verbatim>\<open>None\<close>, kept
  here as an optional expression.
\<close>

datatype lvalue =
    LValueID string int
  | LValueDot "expression option" lvalue string int

text \<open>
  \<^verbatim>\<open>ReturnStatement\<close> is the return with a value (its expression is always
  present), \<^verbatim>\<open>ReturnEmptyStatement\<close> the return without one.
\<close>

datatype statement =
    BlockStatement "statement list"
  | AssignmentStatement lvalue expression int
  | ConditionalStatement expression statement "statement option" int
  | WhileStatement expression statement int
  | DeleteStatement expression int
  | InvocationStatement expression int
  | PrintStatement expression int
  | PrintLnStatement expression int
  | ReturnStatement expression int
  | ReturnEmptyStatement int

datatype function_node =
  Function (f_name: string) (f_params: "decl_node list") (f_locals: "decl_node list")
    (f_ret_type: return_type_node) (f_body: "statement list") (f_linenum: int)

datatype program =
  Program (p_types: "type_declaration list") (p_declarations: "decl_node list")
    (p_functions: "function_node list")

fun e_linenum :: "expression \<Rightarrow> int" where
  "e_linenum (IntegerExpression v ln) = ln"
| "e_linenum (TrueExpression ln) = ln"
| "e_linenum (FalseExpression ln) = ln"
| "e_linenum (NullExpression ln) = ln"
| "e_linenum (ReadExpression ln) = ln"
| "e_linenum (IdentifierExpression name ln) = ln"
| "e_linenum (DotExpression left fid ln) = ln"
| "e_linenum (UnaryExpression op operand ln) = ln"
| "e_linenum (BinaryExpression op left right ln) = ln"
| "e_linenum (InvocationExpression name args ln) = ln"
| "e_linenum (NewExpression sname ln) = ln"

fun is_return :: "statement \<Rightarrow> bool" where
  "is_return (ReturnStatement e ln) = True"
| "is_return (ReturnEmptyStatement ln) = True"
| "is_return s = False"


section \<open>The semantic analyzer (static\_semantic\_ast\_visitor.py)\<close>

subsection \<open>Types, diagnostics, symbol tables\<close>

text \<open>The type constants \<^verbatim>\<open>INT\<close>, \<^verbatim>\<open>BOOL\<close>, \<^verbatim>\<open>VOID\<close>, \<^verbatim>\<open>NULL\<close> and the pair
  \<^verbatim>\<open>("struct", name)\<close>.\<close>

datatype ty = INT_ty | BOOL_ty | VOID_ty | NULL_ty | STRUCT_ty string

text \<open>\<^verbatim>\<open>Error(message, linenum)\<close> prints one line and adds one to the error count: a
  diagnostic is the pair of the message and the line number.\<close>

type_synonym diagnostic = "string \<times> int"

datatype symbol_table =
  SymbolTable (parent: "symbol_table option") (symbols: "string \<rightharpoonup> decl_node")
    (scope_name: string)

fun lookupTable :: "symbol_table \<Rightarrow> string \<Rightarrow> decl_node option" where
  "lookupTable (SymbolTable par syms sn) name =
     (case syms name of
        Some v \<Rightarrow> Some v
      | None \<Rightarrow> (case par of None \<Rightarrow> None | Some scope \<Rightarrow> lookupTable scope name))"

definition lookup_local :: "symbol_table \<Rightarrow> string \<Rightarrow> decl_node option" where
  "lookup_local scope name = symbols scope name"

text \<open>
  The analyzer object. \<^verbatim>\<open>self.errors\<close> is a counter and each error is printed when
  it is found: \<open>sa_printed\<close> is the list of the diagnostics printed so far, in order, and
  \<open>errors\<close> is its length.
\<close>

record analyzer =
  sa_printed :: "diagnostic list"
  sa_globals :: symbol_table
  sa_functions :: "string \<rightharpoonup> function_node"
  sa_structs :: "string \<rightharpoonup> type_declaration"
  sa_function_scopes :: "string \<rightharpoonup> symbol_table"
  sa_current_scope :: symbol_table
  sa_current_function :: "function_node option"

definition errors :: "analyzer \<Rightarrow> nat" where
  "errors A = length (sa_printed A)"

definition Error :: "string \<Rightarrow> int \<Rightarrow> analyzer \<Rightarrow> analyzer" where
  "Error message linenum A = A\<lparr>sa_printed := sa_printed A @ [(message, linenum)]\<rparr>"

definition SemanticAnalyzer_init :: analyzer where
  "SemanticAnalyzer_init =
     \<lparr>sa_printed = [], sa_globals = SymbolTable None Map.empty ''Global'',
      sa_functions = Map.empty, sa_structs = Map.empty, sa_function_scopes = Map.empty,
      sa_current_scope = SymbolTable None Map.empty ''Global'', sa_current_function = None\<rparr>"

text \<open>\<^verbatim>\<open>SymbolTable.define\<close>: the table and the analyzer (for the error) are both
  passed and returned.\<close>

definition define_symbol ::
  "string \<Rightarrow> decl_node \<Rightarrow> int \<Rightarrow> symbol_table \<times> analyzer \<Rightarrow> symbol_table \<times> analyzer" where
  "define_symbol name v linenum = (\<lambda>(scope, A).
     if name \<in> dom (symbols scope)
     then (scope, Error (''Redeclaration of '' @ [CHR 0x27] @ name @ [CHR 0x27]) linenum A)
     else (SymbolTable (parent scope) ((symbols scope)(name \<mapsto> v)) (scope_name scope), A))"

fun Type :: "analyzer \<Rightarrow> type_node \<Rightarrow> ty option" where
  "Type A IntType = Some INT_ty"
| "Type A BoolType = Some BOOL_ty"
| "Type A (StructType sname ln) =
     (if sname \<notin> dom (sa_structs A) then None else Some (STRUCT_ty sname))"

fun Type_ret :: "analyzer \<Rightarrow> return_type_node \<Rightarrow> ty option" where
  "Type_ret A ReturnTypeVoid = Some VOID_ty"
| "Type_ret A (ReturnTypeReal t) = Type A t"

fun is_struct :: "ty \<Rightarrow> bool" where
  "is_struct (STRUCT_ty n) = True"
| "is_struct t = False"

fun types_match :: "ty option \<Rightarrow> ty option \<Rightarrow> bool" where
  "types_match None b = False"
| "types_match a None = False"
| "types_match (Some a) (Some b) = (if b = NULL_ty \<and> is_struct a then True else a = b)"

subsection \<open>Expressions\<close>

text \<open>
  Visiting an expression reads the analyzer and changes nothing but the error output:
  \<open>expr_type A e\<close> is the type the visit returns (\<open>None\<close> for Python's \<^verbatim>\<open>None\<close>)
  and the diagnostics it prints, in order. \<open>check_arguments\<close> is the loop over
  \<^verbatim>\<open>zip(expr.arguments, fn.params)\<close> of \<^verbatim>\<open>visit_invocation_expression\<close>.
\<close>

text \<open>
  The operator part of \<^verbatim>\<open>visit_binary_expression\<close>, reached when both operand types
  are present: the result type and the diagnostic printed, by operator.
\<close>

definition binary_check :: "string \<Rightarrow> ty \<Rightarrow> ty \<Rightarrow> int \<Rightarrow> ty option \<times> diagnostic list" where
  "binary_check op_val left_t right_t ln =
     (if op_val \<in> set [''*'', ''/'', ''+'', ''-''] then
        (Some INT_ty,
         if left_t \<noteq> INT_ty \<or> right_t \<noteq> INT_ty
         then [(''Arithmetic requires int operands'', ln)] else [])
      else if op_val \<in> set [''<'', ''>'', ''<='', ''>=''] then
        (Some BOOL_ty,
         if left_t \<noteq> INT_ty \<or> right_t \<noteq> INT_ty
         then [(''Comparison requires int operands'', ln)] else [])
      else if op_val \<in> set [''=='', ''!=''] then
        (Some BOOL_ty,
         if left_t = NULL_ty then
           (if \<not> is_struct right_t
            then [(''Cannot compare null with non-struct'', ln)] else [])
         else if right_t = NULL_ty then
           (if \<not> is_struct left_t
            then [(''Cannot compare null with non-struct'', ln)] else [])
         else if left_t \<noteq> right_t then [(''Equality requires matching types'', ln)]
         else [])
      else if op_val \<in> set [''&&'', ''||''] then
        (Some BOOL_ty,
         if left_t \<noteq> BOOL_ty \<or> right_t \<noteq> BOOL_ty
         then [(''Boolean operators require boolean operands'', ln)] else [])
      else (None, []))"

fun expr_type :: "analyzer \<Rightarrow> expression \<Rightarrow> ty option \<times> diagnostic list"
  and check_arguments :: "analyzer \<Rightarrow> expression list \<Rightarrow> decl_node list \<Rightarrow> diagnostic list"
where
  "expr_type A (IntegerExpression v ln) = (Some INT_ty, [])"
| "expr_type A (TrueExpression ln) = (Some BOOL_ty, [])"
| "expr_type A (FalseExpression ln) = (Some BOOL_ty, [])"
| "expr_type A (NullExpression ln) = (Some NULL_ty, [])"
| "expr_type A (ReadExpression ln) = (Some INT_ty, [])"
| "expr_type A (IdentifierExpression name ln) =
     (case lookupTable (sa_current_scope A) name of
        Some decl \<Rightarrow> (Type A (d_type decl), [])
      | None \<Rightarrow> (None, [(''Undefined variable '' @ [CHR 0x27] @ name @ [CHR 0x27], ln)]))"
| "expr_type A (DotExpression left fid ln) =
     (case fst (expr_type A left) of
        None \<Rightarrow> (None, snd (expr_type A left))
      | Some (STRUCT_ty struct_name) \<Rightarrow>
          (case sa_structs A struct_name of
             None \<Rightarrow> (None, snd (expr_type A left))
           | Some struct_decl \<Rightarrow>
               (case find (\<lambda>fld. d_name fld = fid) (td_fields struct_decl) of
                  Some fld \<Rightarrow> (Type A (d_type fld), snd (expr_type A left))
                | None \<Rightarrow>
                    (None, snd (expr_type A left) @
                       [(''Struct '' @ struct_name @ '' has no field '' @
                           [CHR 0x27] @ fid @ [CHR 0x27], ln)])))
      | Some t \<Rightarrow> (None, snd (expr_type A left) @ [(''Dot operator requires struct'', ln)]))"
| "expr_type A (NewExpression sname ln) =
     (if sname \<notin> dom (sa_structs A)
      then (None, [(''Undefined struct '' @ [CHR 0x27] @ sname @ [CHR 0x27], ln)])
      else (Some (STRUCT_ty sname), []))"
| "expr_type A (InvocationExpression fname args ln) =
     (case sa_functions A fname of
        None \<Rightarrow> (None, [(''Undefined function '' @ [CHR 0x27] @ fname @ [CHR 0x27], ln)])
      | Some fn \<Rightarrow>
          (Type_ret A (f_ret_type fn),
           (if length (f_params fn) \<noteq> length args
            then [(''Wrong number of arguments to '' @ [CHR 0x27] @ fname @ [CHR 0x27], ln)]
            else [])
           @ check_arguments A args (f_params fn)))"
| "expr_type A (UnaryExpression op operand ln) =
     (case fst (expr_type A operand) of
        None \<Rightarrow> (None, snd (expr_type A operand))
      | Some operand_t \<Rightarrow>
          if op = ''!'' then
            (Some BOOL_ty,
             snd (expr_type A operand) @
             (if operand_t \<noteq> BOOL_ty then [('' requires boolean'', ln)] else []))
          else if op = ''-'' then
            (Some INT_ty,
             snd (expr_type A operand) @
             (if operand_t \<noteq> INT_ty then [(''requires int'', ln)] else []))
          else (None, snd (expr_type A operand)))"
| "expr_type A (BinaryExpression op left right ln) =
     (case (fst (expr_type A left), fst (expr_type A right)) of
        (Some left_t, Some right_t) \<Rightarrow>
          (fst (binary_check op left_t right_t ln),
           snd (expr_type A left) @ snd (expr_type A right) @
           snd (binary_check op left_t right_t ln))
      | _ \<Rightarrow> (None, snd (expr_type A left) @ snd (expr_type A right)))"
| "check_arguments A [] params = []"
| "check_arguments A (arg_expr # args) [] = []"
| "check_arguments A (arg_expr # args) (param_decl # params) =
     snd (expr_type A arg_expr) @
     (case (fst (expr_type A arg_expr), Type A (d_type param_decl)) of
        (Some a, Some pt) \<Rightarrow>
          if a = NULL_ty \<and> \<not> is_struct pt
          then [(''Cannot pass null to non-struct'', e_linenum arg_expr)]
          else if a \<noteq> pt \<and> a \<noteq> NULL_ty
          then [(''Argument type mismatch'', e_linenum arg_expr)]
          else []
      | _ \<Rightarrow> [])
     @ check_arguments A args params"

text \<open>\<^verbatim>\<open>visit_lvalue_dot\<close> types the attribute \<^verbatim>\<open>lhs\<close>; without it the visit
  returns \<^verbatim>\<open>None\<close> and prints nothing.\<close>

definition lhs_type :: "analyzer \<Rightarrow> expression option \<Rightarrow> ty option \<times> diagnostic list" where
  "lhs_type A lhs = (case lhs of None \<Rightarrow> (None, []) | Some left_expr \<Rightarrow> expr_type A left_expr)"

fun lvalue_type :: "analyzer \<Rightarrow> lvalue \<Rightarrow> ty option \<times> diagnostic list" where
  "lvalue_type A (LValueID nm ln) =
     (case lookupTable (sa_current_scope A) nm of
        Some decl \<Rightarrow> (Type A (d_type decl), [])
      | None \<Rightarrow> (None, [(''Undefined variable '' @ [CHR 0x27] @ nm @ [CHR 0x27], ln)]))"
| "lvalue_type A (LValueDot lhs left fid ln) =
     (case fst (lhs_type A lhs) of
        None \<Rightarrow> (None, snd (lhs_type A lhs))
      | Some (STRUCT_ty sname) \<Rightarrow>
          (case sa_structs A sname of
             None \<Rightarrow> (None, snd (lhs_type A lhs))
           | Some struct_decl \<Rightarrow>
               (case find (\<lambda>fld. d_name fld = fid) (td_fields struct_decl) of
                  Some fld \<Rightarrow> (Type A (d_type fld), snd (lhs_type A lhs))
                | None \<Rightarrow>
                    (None, snd (lhs_type A lhs) @
                       [(''Field '' @ [CHR 0x27] @ fid @ [CHR 0x27] @ '' not found'', ln)])))
      | Some t \<Rightarrow> (None, snd (lhs_type A lhs) @ [(''Dot operator requires struct'', ln)]))"

subsection \<open>Statements\<close>

text \<open>
  The diagnostics a statement visit prints. An else branch is visited only when it is
  a block with at least one statement; any other else branch is set to \<^verbatim>\<open>None\<close> in
  the tree and not visited (\<open>sa_tree_after\<close> is that change of the tree).
\<close>

definition guard_check :: "analyzer \<Rightarrow> expression \<Rightarrow> string \<Rightarrow> int \<Rightarrow> diagnostic list" where
  "guard_check A guard message ln =
     snd (expr_type A guard) @
     (if fst (expr_type A guard) \<noteq> None \<and> fst (expr_type A guard) \<noteq> Some BOOL_ty
      then [(message, ln)] else [])"

fun sa_visit_statement :: "analyzer \<Rightarrow> statement \<Rightarrow> diagnostic list" where
  "sa_visit_statement A (BlockStatement ss) = concat (map (sa_visit_statement A) ss)"
| "sa_visit_statement A (AssignmentStatement target source ln) =
     snd (lvalue_type A target) @ snd (expr_type A source) @
     (if fst (lvalue_type A target) \<noteq> None \<and> fst (expr_type A source) \<noteq> None \<and>
         \<not> types_match (fst (lvalue_type A target)) (fst (expr_type A source))
      then [(''Type mismatch in assignment'', ln)] else [])"
| "sa_visit_statement A (ConditionalStatement guard then_block None ln) =
     guard_check A guard ''Condition must be a boolean'' ln
     @ sa_visit_statement A then_block"
| "sa_visit_statement A (ConditionalStatement guard then_block (Some (BlockStatement ss)) ln) =
     guard_check A guard ''Condition must be a boolean'' ln
     @ sa_visit_statement A then_block
     @ (if ss = [] then [] else sa_visit_statement A (BlockStatement ss))"
| "sa_visit_statement A (ConditionalStatement guard then_block (Some else_block) ln) =
     guard_check A guard ''Condition must be a boolean'' ln
     @ sa_visit_statement A then_block"
| "sa_visit_statement A (WhileStatement guard body ln) =
     guard_check A guard ''Condition must be boolean'' ln
     @ sa_visit_statement A body"
| "sa_visit_statement A (DeleteStatement e ln) =
     snd (expr_type A e) @
     (case fst (expr_type A e) of
        None \<Rightarrow> []
      | Some t \<Rightarrow> if \<not> is_struct t then [(''delete requires a struct'', ln)] else [])"
| "sa_visit_statement A (InvocationStatement e ln) = snd (expr_type A e)"
| "sa_visit_statement A (PrintLnStatement e ln) =
     snd (expr_type A e) @
     (if fst (expr_type A e) \<noteq> Some INT_ty then [(''print requires int'', ln)] else [])"
| "sa_visit_statement A (PrintStatement e ln) =
     snd (expr_type A e) @
     (if fst (expr_type A e) \<noteq> Some INT_ty then [(''print requires int'', ln)] else [])"
| "sa_visit_statement A (ReturnEmptyStatement ln) =
     (case sa_current_function A of
        None \<Rightarrow> []
      | Some cf \<Rightarrow>
          if Type_ret A (f_ret_type cf) \<noteq> Some VOID_ty
          then [(''Non-void function must return value'', ln)] else [])"
| "sa_visit_statement A (ReturnStatement e ln) =
     (case sa_current_function A of
        None \<Rightarrow> []
      | Some cf \<Rightarrow>
          snd (expr_type A e) @
          (if Type_ret A (f_ret_type cf) = Some VOID_ty
           then [('' a Void function cannot return value'', ln)]
           else if fst (expr_type A e) \<noteq> None \<and>
                   \<not> types_match (Type_ret A (f_ret_type cf)) (fst (expr_type A e))
           then [(''Return type mismatch'', ln)]
           else []))"

fun sa_tree_after :: "statement \<Rightarrow> statement" where
  "sa_tree_after (BlockStatement ss) = BlockStatement (map sa_tree_after ss)"
| "sa_tree_after (ConditionalStatement guard then_block None ln) =
     ConditionalStatement guard (sa_tree_after then_block) None ln"
| "sa_tree_after (ConditionalStatement guard then_block (Some (BlockStatement ss)) ln) =
     ConditionalStatement guard (sa_tree_after then_block)
       (if ss = [] then None else Some (BlockStatement (map sa_tree_after ss))) ln"
| "sa_tree_after (ConditionalStatement guard then_block (Some else_block) ln) =
     ConditionalStatement guard (sa_tree_after then_block) None ln"
| "sa_tree_after (WhileStatement guard body ln) = WhileStatement guard (sa_tree_after body) ln"
| "sa_tree_after s = s"

subsection \<open>Struct declarations\<close>

text \<open>One round of the loop over \<^verbatim>\<open>tdecl.fields\<close> in \<^verbatim>\<open>visit_type_declaration\<close>; the
  loop state is the set \<^verbatim>\<open>seen\<close> and the analyzer.\<close>

definition field_step ::
  "string \<Rightarrow> decl_node \<Rightarrow> string set \<times> analyzer \<Rightarrow> string set \<times> analyzer" where
  "field_step struct_name f = (\<lambda>(seen, A).
     let fname = d_name f;
         (seen1, A1) =
           (if fname \<in> seen
            then (seen, Error (''Duplicate field of name: '' @ [CHR 0x27] @ fname @ [CHR 0x27])
                          (d_linenum f) A)
            else (insert fname seen, A))
     in (case d_type f of
           StructType sname tln \<Rightarrow>
             if Type A1 (d_type f) = None \<and> sname \<noteq> struct_name \<and> sname \<notin> dom (sa_structs A1)
             then (seen1, Error (''Undefined struct of name: '' @ [CHR 0x27] @ sname @ [CHR 0x27])
                            (d_linenum f) A1)
             else (seen1, A1)
         | _ \<Rightarrow> (seen1, A1)))"

definition sa_visit_type_declaration :: "type_declaration \<Rightarrow> analyzer \<Rightarrow> analyzer" where
  "sa_visit_type_declaration tdecl A =
     snd (fold (field_step (td_name tdecl)) (td_fields tdecl) ({}, A))"

text \<open>One round of the first loop of \<^verbatim>\<open>visit_program\<close>: the struct is put into
  \<^verbatim>\<open>self.structs\<close> (unless the name is taken), then its fields are checked.\<close>

definition register_struct :: "type_declaration \<Rightarrow> analyzer \<Rightarrow> analyzer" where
  "register_struct t A =
     (let name = td_name t;
          A1 = (if name \<in> dom (sa_structs A)
                then Error (''Duplicate struct '' @ [CHR 0x27] @ name @ [CHR 0x27]) (td_linenum t) A
                else A\<lparr>sa_structs := (sa_structs A)(name \<mapsto> t)\<rparr>)
      in sa_visit_type_declaration t A1)"

subsection \<open>Globals and functions\<close>

fun sa_visit_type :: "type_node \<Rightarrow> analyzer \<Rightarrow> analyzer" where
  "sa_visit_type IntType A = A"
| "sa_visit_type BoolType A = A"
| "sa_visit_type (StructType sname ln) A =
     (if sname \<notin> dom (sa_structs A)
      then Error (''Undefined struct of name'' @ [CHR 0x27] @ sname @ [CHR 0x27]) ln A
      else A)"

text \<open>One round of the loop over \<^verbatim>\<open>program.declarations\<close>. Outside a function
  \<^verbatim>\<open>self.current_scope\<close> is the object \<^verbatim>\<open>self.globals\<close>, so both fields change.\<close>

definition global_step :: "decl_node \<Rightarrow> analyzer \<Rightarrow> analyzer" where
  "global_step decl A =
     (let dname = d_name decl;
          A1 = (if lookup_local (sa_globals A) dname \<noteq> None
                then Error (''Duplicate global '' @ [CHR 0x27] @ dname @ [CHR 0x27])
                       (d_linenum decl) A
                else (case define_symbol dname decl (d_linenum decl) (sa_globals A, A) of
                        (g, A') \<Rightarrow> A'\<lparr>sa_globals := g, sa_current_scope := g\<rparr>));
          A2 = (case d_type decl of
                  StructType sname tln \<Rightarrow>
                    if Type A1 (d_type decl) = None
                    then Error (''Undefined struct '' @ [CHR 0x27] @ sname @ [CHR 0x27])
                           (d_linenum decl) A1
                    else A1
                | _ \<Rightarrow> A1)
      in sa_visit_type (d_type decl) A2)"

definition register_function :: "function_node \<Rightarrow> analyzer \<Rightarrow> analyzer" where
  "register_function func A =
     (let fname = f_name func in
      if fname \<in> dom (sa_functions A)
      then Error (''Duplicate function '' @ [CHR 0x27] @ fname @ [CHR 0x27]) (f_linenum func) A
      else A\<lparr>sa_functions := (sa_functions A)(fname \<mapsto> func)\<rparr>)"

text \<open>The loops over \<^verbatim>\<open>func.params\<close> and \<^verbatim>\<open>func.locals\<close> in \<^verbatim>\<open>visit_function\<close>; the
  loop state is the function's scope and the analyzer.\<close>

definition param_step ::
  "decl_node \<Rightarrow> symbol_table \<times> analyzer \<Rightarrow> symbol_table \<times> analyzer" where
  "param_step p = (\<lambda>(func_scope, A).
     let pname = d_name p;
         (scope1, A1) =
           (if lookup_local func_scope pname \<noteq> None
            then (func_scope,
                  Error (''Duplicate parameter of name: '' @ [CHR 0x27] @ pname @ [CHR 0x27])
                    (d_linenum p) A)
            else define_symbol pname p (d_linenum p) (func_scope, A))
     in (case d_type p of
           StructType sname tln \<Rightarrow>
             if Type A1 (d_type p) = None \<and> sname \<notin> dom (sa_structs A1)
             then (scope1, Error (''Undefined struct of name'' @ [CHR 0x27] @ sname @ [CHR 0x27])
                             (d_linenum p) A1)
             else (scope1, A1)
         | _ \<Rightarrow> (scope1, A1)))"

definition local_step ::
  "decl_node \<Rightarrow> symbol_table \<times> analyzer \<Rightarrow> symbol_table \<times> analyzer" where
  "local_step l = (\<lambda>(func_scope, A).
     let lname = d_name l;
         (scope1, A1) =
           (if lookup_local func_scope lname \<noteq> None
            then (func_scope,
                  Error (''Duplicate local of the name: '' @ [CHR 0x27] @ lname @ [CHR 0x27])
                    (d_linenum l) A)
            else define_symbol lname l (d_linenum l) (func_scope, A))
     in (case d_type l of
           StructType sname tln \<Rightarrow>
             if Type A1 (d_type l) = None \<and> sname \<notin> dom (sa_structs A1)
             then (scope1, Error (''Undefined struct of name: '' @ [CHR 0x27] @ sname @ [CHR 0x27])
                             (d_linenum l) A1)
             else (scope1, A1)
         | _ \<Rightarrow> (scope1, A1)))"

text \<open>The return check at the end of \<^verbatim>\<open>visit_function\<close>: it reads the last statement
  of the body only. A value return has its expression visited once more here.\<close>

definition return_check :: "function_node \<Rightarrow> analyzer \<Rightarrow> analyzer" where
  "return_check func A =
     (let declared = Type_ret A (f_ret_type func) in
      if f_body func \<noteq> [] then
        (case last (f_body func) of
           ReturnEmptyStatement ln \<Rightarrow>
             if declared \<noteq> Some VOID_ty
             then Error ''Non-void function must return value'' ln A else A
         | ReturnStatement e ln \<Rightarrow>
             (let et = fst (expr_type A e);
                  A' = A\<lparr>sa_printed := sa_printed A @ snd (expr_type A e)\<rparr>
              in if et \<noteq> None \<and> declared = Some VOID_ty
                 then Error ''Void function cannot return value'' ln A'
                 else if et \<noteq> None \<and> \<not> types_match declared et
                 then Error ''Return type mismatch'' ln A'
                 else A')
         | _ \<Rightarrow>
             if declared \<noteq> Some VOID_ty
             then Error ''Missing return statement'' (f_linenum func) A else A)
      else if declared \<noteq> Some VOID_ty
      then Error ''Missing return statement'' (f_linenum func) A
      else A)"

text \<open>
  \<^verbatim>\<open>visit_function\<close>. The source stores the new scope object in
  \<^verbatim>\<open>self.current_scope\<close> and \<^verbatim>\<open>self.function_scopes\<close> before it fills it; nothing
  reads the two fields before the body is visited, so the filled scope is stored here.
\<close>

definition sa_visit_function :: "function_node \<Rightarrow> analyzer \<Rightarrow> analyzer" where
  "sa_visit_function func A =
     (let fname = f_name func;
          prev_scope = sa_current_scope A;
          prev_function = sa_current_function A;
          (scope1, A1) =
            fold param_step (f_params func)
              (SymbolTable (Some (sa_globals A)) Map.empty (fname @ ''()''), A);
          (func_scope, A2) = fold local_step (f_locals func) (scope1, A1);
          A3 = A2\<lparr>sa_current_scope := func_scope, sa_current_function := Some func,
                  sa_function_scopes := (sa_function_scopes A2)(fname \<mapsto> func_scope)\<rparr>;
          A4 = A3\<lparr>sa_printed :=
                    sa_printed A3 @ concat (map (sa_visit_statement A3) (f_body func))\<rparr>;
          A5 = return_check func A4
      in A5\<lparr>sa_current_scope := prev_scope, sa_current_function := prev_function\<rparr>)"

definition check_main :: "analyzer \<Rightarrow> analyzer" where
  "check_main A =
     (case sa_functions A ''main'' of
        None \<Rightarrow> Error ''Main() function id missing'' 0 A
      | Some main_fn \<Rightarrow>
          (let A1 = (if length (f_params main_fn) \<noteq> 0
                     then Error ''main() function takes no arguments'' (f_linenum main_fn) A
                     else A)
           in if Type_ret A1 (f_ret_type main_fn) \<noteq> Some INT_ty
              then Error ''main() must return an int'' (f_linenum main_fn) A1
              else A1))"

definition sa_visit_program :: "program \<Rightarrow> analyzer \<Rightarrow> analyzer" where
  "sa_visit_program prog A =
     check_main
       (fold sa_visit_function (p_functions prog)
          (fold register_function (p_functions prog)
             (fold global_step (p_declarations prog)
                (fold register_struct (p_types prog) A))))"

definition analyze :: "program \<Rightarrow> nat" where
  "analyze prog = errors (sa_visit_program prog SemanticAnalyzer_init)"

subsection \<open>Notions used in the statements about the analyzer\<close>

text \<open>
  The diagnostics expected for the fields of one struct declaration when the structs
  named in \<open>earlier\<close> are declared before it: one ``undefined struct'' diagnostic for
  each field whose type names a struct that is neither among them nor the struct itself.
\<close>

definition undefined_field_diagnostics :: "string list \<Rightarrow> type_declaration \<Rightarrow> diagnostic list" where
  "undefined_field_diagnostics earlier t =
     concat (map (\<lambda>f. case d_type f of
                          StructType sname tln \<Rightarrow>
                            if sname \<in> set earlier \<or> sname = td_name t then []
                            else [(''Undefined struct of name: '' @ [CHR 0x27] @ sname @ [CHR 0x27],
                                   d_linenum f)]
                        | _ \<Rightarrow> [])
                 (td_fields t))"

definition is_undefined_field :: "diagnostic \<Rightarrow> bool" where
  "is_undefined_field d = prefix ''Undefined struct of name: '' (fst d)"

definition is_missing_return :: "diagnostic \<Rightarrow> bool" where
  "is_missing_return d = (fst d = ''Missing return statement'')"


section \<open>The code generator (code\_gen\_ast\_visitor.py)\<close>

subsection \<open>Numbers in the emitted text\<close>

text \<open>Python's \<^verbatim>\<open>str\<close> of an integer, as the f-strings of the generator apply it.\<close>

definition digit_char :: "nat \<Rightarrow> char" where
  "digit_char d = ''0123456789'' ! d"

fun digits :: "nat \<Rightarrow> string" where
  "digits n = (if n < 10 then [digit_char n] else digits (n div 10) @ [digit_char (n mod 10)])"

declare digits.simps [simp del]

definition str_int :: "int \<Rightarrow> string" where
  "str_int i = (if i < 0 then CHR ''-'' # digits (nat (- i)) else digits (nat i))"

subsection \<open>The generator object\<close>

text \<open>An entry of \<^verbatim>\<open>self.structs\<close>: the dictionary
  \<^verbatim>\<open>{"fields": layout, "size": offset}\<close>.\<close>

record struct_layout =
  sl_fields :: "string \<rightharpoonup> int"
  sl_size :: int

record codegen =
  cg_output :: "string list"
  cg_label_counter :: int
  cg_structs :: "string \<rightharpoonup> struct_layout"
  cg_globals :: "string \<rightharpoonup> string"
  cg_locals :: "string \<rightharpoonup> int"
  cg_current_function :: "string option"
  cg_stack_offset :: int
  cg_read :: bool
  cg_type_environment :: "string \<rightharpoonup> type_node"
  cg_current_locals_size :: int

definition CodeGenVisitor_init :: codegen where
  "CodeGenVisitor_init =
     \<lparr>cg_output = [], cg_label_counter = 0, cg_structs = Map.empty, cg_globals = Map.empty,
      cg_locals = Map.empty, cg_current_function = None, cg_stack_offset = 0, cg_read = False,
      cg_type_environment = Map.empty, cg_current_locals_size = 0\<rparr>"

definition emit :: "string \<Rightarrow> codegen \<Rightarrow> codegen" where
  "emit instruction G = G\<lparr>cg_output := cg_output G @ [instruction]\<rparr>"

definition Label :: "string \<Rightarrow> codegen \<Rightarrow> string \<times> codegen" where
  "Label pre G =
     (pre @ str_int (cg_label_counter G), G\<lparr>cg_label_counter := cg_label_counter G + 1\<rparr>)"

subsection \<open>Struct layout\<close>

fun type_size :: "type_node \<Rightarrow> int" where
  "type_size IntType = 4"
| "type_size BoolType = 4"
| "type_size (StructType sname ln) = 4"

text \<open>One round of the loop of \<^verbatim>\<open>_calculate_struct_layout\<close>; the loop state is the
  dictionary \<^verbatim>\<open>layout\<close> and \<^verbatim>\<open>offset\<close>.\<close>

definition layout_step :: "decl_node \<Rightarrow> (string \<rightharpoonup> int) \<times> int \<Rightarrow> (string \<rightharpoonup> int) \<times> int" where
  "layout_step field = (\<lambda>(layout, offset).
     (layout(d_name field \<mapsto> offset), offset + type_size (d_type field)))"

definition calculate_struct_layout :: "type_declaration \<Rightarrow> codegen \<Rightarrow> codegen" where
  "calculate_struct_layout tdecl G =
     (case fold layout_step (td_fields tdecl) (Map.empty, 0) of
        (layout, offset) \<Rightarrow>
          G\<lparr>cg_structs := (cg_structs G)(td_name tdecl \<mapsto> \<lparr>sl_fields = layout, sl_size = offset\<rparr>)\<rparr>)"

subsection \<open>The scan for the read expression\<close>

fun check_expr :: "expression \<Rightarrow> bool" where
  "check_expr (ReadExpression ln) = True"
| "check_expr (BinaryExpression op left right ln) = (check_expr left \<or> check_expr right)"
| "check_expr (UnaryExpression op operand ln) = check_expr operand"
| "check_expr (DotExpression left fid ln) = check_expr left"
| "check_expr (InvocationExpression name args ln) = list_ex check_expr args"
| "check_expr e = False"

fun check_stmt :: "statement \<Rightarrow> bool" where
  "check_stmt (AssignmentStatement target source ln) = check_expr source"
| "check_stmt (BlockStatement ss) = list_ex check_stmt ss"
| "check_stmt (ConditionalStatement guard then_block else_block ln) =
     (check_expr guard \<or> check_stmt then_block \<or>
      (case else_block of None \<Rightarrow> False | Some eb \<Rightarrow> check_stmt eb))"
| "check_stmt (WhileStatement guard body ln) = (check_expr guard \<or> check_stmt body)"
| "check_stmt (PrintStatement e ln) = check_expr e"
| "check_stmt (PrintLnStatement e ln) = check_expr e"
| "check_stmt (ReturnStatement e ln) = check_expr e"
| "check_stmt (DeleteStatement e ln) = check_expr e"
| "check_stmt (InvocationStatement e ln) = check_expr e"
| "check_stmt (ReturnEmptyStatement ln) = False"

definition check_for_read :: "program \<Rightarrow> bool" where
  "check_for_read prog = list_ex (\<lambda>func. list_ex check_stmt (f_body func)) (p_functions prog)"

subsection \<open>Expressions\<close>

text \<open>The instructions of \<^verbatim>\<open>visit_binary_expression\<close> after the operands, by
  operator.\<close>

definition binary_operation :: "string \<Rightarrow> string list" where
  "binary_operation op =
     (if op = ''+'' then [''    add t0, t0, t1'']
      else if op = ''-'' then [''    sub t0, t0, t1'']
      else if op = ''*'' then [''    mul t0, t0, t1'']
      else if op = ''/'' then [''    div t0, t0, t1'']
      else if op = ''<'' then [''    slt t0, t0, t1'']
      else if op = ''>'' then [''    slt t0, t1, t0'']
      else if op = ''<='' then [''    slt t0, t1, t0'', ''    xori t0, t0, 1'']
      else if op = ''>='' then [''    slt t0, t0, t1'', ''    xori t0, t0, 1'']
      else if op = ''=='' then [''    sub t0, t0, t1'', ''    seqz t0, t0'']
      else if op = ''!='' then [''    sub t0, t0, t1'', ''    snez t0, t0'']
      else if op = ''&&'' then [''    and t0, t0, t1'', ''    snez t0, t0'']
      else if op = ''||'' then [''    or t0, t0, t1'', ''    snez t0, t0'']
      else [])"

definition unary_operation :: "string \<Rightarrow> string list" where
  "unary_operation op =
     (if op = ''-'' then [''    neg t0, t0'']
      else if op = ''!'' then [''    seqz t0, t0'']
      else [])"

fun get_struct_type :: "codegen \<Rightarrow> expression \<Rightarrow> string option" where
  "get_struct_type G (IdentifierExpression var_name ln) =
     (case cg_type_environment G var_name of
        Some (StructType sname tln) \<Rightarrow> Some sname
      | _ \<Rightarrow> None)"
| "get_struct_type G e = None"

text \<open>The load of a field in \<^verbatim>\<open>visit_dot_expression\<close>, after the struct pointer is in
  \<^verbatim>\<open>t2\<close>. An empty name counts as no name, as Python's truth test does.\<close>

definition load_field :: "codegen \<Rightarrow> string option \<Rightarrow> string \<Rightarrow> string list" where
  "load_field G struct_type_name field_name =
     (case struct_type_name of
        None \<Rightarrow>
          [''    lw t0, 0(t2)  # Load field '' @ field_name @ '' (unknown struct type)'']
      | Some sn \<Rightarrow>
          (case (if sn = [] then None else cg_structs G sn) of
             None \<Rightarrow>
               [''    lw t0, 0(t2)  # Load field '' @ field_name @ '' (unknown struct type)'']
           | Some entry \<Rightarrow>
               (case sl_fields entry field_name of
                  Some offset \<Rightarrow>
                    [''    lw t0, '' @ str_int offset @ ''(t2)  # Load field '' @ field_name]
                | None \<Rightarrow>
                    [''    # ERROR: Field '' @ field_name @ '' not found in struct '' @ sn,
                     ''    li t0, 0''])))"

text \<open>
  The visit of an expression changes nothing but the output: \<open>cg_visit_expression G e\<close>
  is the list of the instructions it emits, in order. \<open>cg_visit_arguments G i args\<close> is
  the loop over \<^verbatim>\<open>enumerate(expr.arguments)\<close> of \<^verbatim>\<open>visit_invocation_expression\<close> from
  index \<open>i\<close> on.
\<close>

fun cg_visit_expression :: "codegen \<Rightarrow> expression \<Rightarrow> string list"
  and cg_visit_arguments :: "codegen \<Rightarrow> nat \<Rightarrow> expression list \<Rightarrow> string list"
where
  "cg_visit_expression G (IntegerExpression v ln) = [''    li t0, '' @ str_int v]"
| "cg_visit_expression G (TrueExpression ln) = [''    li t0, 1'']"
| "cg_visit_expression G (FalseExpression ln) = [''    li t0, 0'']"
| "cg_visit_expression G (NullExpression ln) = [''    li t0, 0'']"
| "cg_visit_expression G (ReadExpression ln) =
     [''    la t0, input_file_ptr'', ''    lw a0, 0(t0)'', ''    jal read_int'',
      ''    mv t0, a0'']"
| "cg_visit_expression G (IdentifierExpression name ln) =
     (case cg_locals G name of
        Some offset \<Rightarrow> [''    lw t0, '' @ str_int offset @ ''(fp)'']
      | None \<Rightarrow>
          (case cg_globals G name of
             Some label \<Rightarrow> [''    la t1, '' @ label, ''    lw t0, 0(t1)'']
           | None \<Rightarrow> [''    # ERROR: Unknown variable '' @ name, ''    li t0, 0'']))"
| "cg_visit_expression G (BinaryExpression op left right ln) =
     cg_visit_expression G left
     @ [''    addi sp, sp, -4'', ''    sw t0, 0(sp)  # Push left'']
     @ cg_visit_expression G right
     @ [''    mv t1, t0'', ''    lw t0, 0(sp)  # Pop left'', ''    addi sp, sp, 4'']
     @ binary_operation op"
| "cg_visit_expression G (UnaryExpression op operand ln) =
     cg_visit_expression G operand @ unary_operation op"
| "cg_visit_expression G (DotExpression left fid ln) =
     cg_visit_expression G left
     @ [''    mv t2, t0  # Save struct pointer'']
     @ load_field G (get_struct_type G left) fid"
| "cg_visit_expression G (InvocationExpression fname args ln) =
     (if int (length args) * 4 > 0
      then [''    addi sp, sp, -'' @ str_int (int (length args) * 4)] else [])
     @ cg_visit_arguments G 0 args
     @ map (\<lambda>i. ''    lw a'' @ str_int (int i) @ '', '' @ str_int (int i * 4) @ ''(sp)'')
         [0..<min (length args) 8]
     @ (if int (length args) * 4 > 0
        then [''    addi sp, sp, '' @ str_int (int (length args) * 4)] else [])
     @ [''    jal '' @ fname, ''    mv t0, a0'']"
| "cg_visit_expression G (NewExpression sname ln) =
     [''    li a0, '' @ str_int (case cg_structs G sname of Some entry \<Rightarrow> sl_size entry | None \<Rightarrow> 4),
      ''    jal sbrk'', ''    mv t0, a0'']"
| "cg_visit_arguments G i [] = []"
| "cg_visit_arguments G i (arg # args) =
     cg_visit_expression G arg
     @ [''    sw t0, '' @ str_int (int i * 4) @ ''(sp)'']
     @ cg_visit_arguments G (Suc i) args"

definition accept_expression :: "expression \<Rightarrow> codegen \<Rightarrow> codegen" where
  "accept_expression e G = G\<lparr>cg_output := cg_output G @ cg_visit_expression G e\<rparr>"

subsection \<open>Assignment targets\<close>

text \<open>The field part of \<^verbatim>\<open>_generate_lvalue_address\<close> for a dot target whose left side
  is the variable \<open>var_name\<close>: the offset is added when the variable has a struct type
  whose layout has the field; \<open>None\<close> stands for the fall through to the fallback.\<close>

definition field_offset_of :: "codegen \<Rightarrow> string \<Rightarrow> string \<Rightarrow> int option" where
  "field_offset_of G var_name field_name =
     (case cg_type_environment G var_name of
        Some (StructType struct_type_name tln) \<Rightarrow>
          (case cg_structs G struct_type_name of
             Some entry \<Rightarrow> sl_fields entry field_name
           | None \<Rightarrow> None)
      | _ \<Rightarrow> None)"

fun generate_lvalue_address :: "codegen \<Rightarrow> lvalue \<Rightarrow> string list" where
  "generate_lvalue_address G (LValueID name ln) =
     (case cg_locals G name of
        Some offset \<Rightarrow> [''    addi t0, fp, '' @ str_int offset]
      | None \<Rightarrow>
          (case cg_globals G name of
             Some label \<Rightarrow> [''    la t0, '' @ label]
           | None \<Rightarrow> []))"
| "generate_lvalue_address G (LValueDot lhs (LValueID name lln) field_name ln) =
     (case cg_locals G name of
        Some offset \<Rightarrow> [''    lw t0, '' @ str_int offset @ ''(fp)  # Load struct pointer'']
      | None \<Rightarrow>
          (case cg_globals G name of
             Some label \<Rightarrow> [''    la t1, '' @ label, ''    lw t0, 0(t1)  # Load struct pointer'']
           | None \<Rightarrow> []))
     @ (case field_offset_of G name field_name of
          Some offset \<Rightarrow>
            [''    addi t0, t0, '' @ str_int offset @ ''  # Add field offset for '' @ field_name]
        | None \<Rightarrow> [''    # Field '' @ field_name @ '' address (offset unknown)''])"
| "generate_lvalue_address G (LValueDot lhs left field_name ln) =
     generate_lvalue_address G left
     @ [''    # Field '' @ field_name @ '' address (offset unknown)'']"

subsection \<open>Statements\<close>

text \<open>The epilogue that both return statements emit, from \<^verbatim>\<open>self.current_locals_size\<close>.\<close>

definition restore_frame :: "int \<Rightarrow> string list" where
  "restore_frame locals_size =
     (if locals_size > 0 then [''    addi sp, sp, '' @ str_int locals_size] else [])
     @ [''    lw fp, 0(sp)'', ''    lw ra, 4(sp)'', ''    addi sp, sp, 8'']"

definition emit_all :: "string list \<Rightarrow> codegen \<Rightarrow> codegen" where
  "emit_all instructions G = G\<lparr>cg_output := cg_output G @ instructions\<rparr>"

text \<open>
  A statement visit appends to the output and, for labels, advances the label counter.
  The else branch is generated when it is a block with at least one statement.
\<close>

fun cg_visit_statement :: "statement \<Rightarrow> codegen \<Rightarrow> codegen" where
  "cg_visit_statement (BlockStatement ss) G = fold cg_visit_statement ss G"
| "cg_visit_statement (AssignmentStatement target source ln) G =
     emit ''    sw t1, 0(t0)''
       (emit_all (generate_lvalue_address G target)
          (emit ''    mv t1, t0  # Save result'' (accept_expression source G)))"
| "cg_visit_statement (PrintStatement e ln) G =
     emit ''    jal print_int'' (emit ''    mv a0, t0'' (accept_expression e G))"
| "cg_visit_statement (PrintLnStatement e ln) G =
     emit ''    jal print_char''
       (emit (''    li a0, '' @ [CHR 0x27, CHR 0x5C, CHR ''n'', CHR 0x27])
          (emit ''    jal print_int'' (emit ''    mv a0, t0'' (accept_expression e G))))"
| "cg_visit_statement (ConditionalStatement guard then_block None ln) G =
     (case Label ''else'' G of (else_label, G1) \<Rightarrow>
      case Label ''endif'' G1 of (end_label, G2) \<Rightarrow>
        emit (end_label @ '':'')
          (emit (else_label @ '':'')
                (emit (''    j '' @ end_label)
                   (cg_visit_statement then_block
                      (emit (''    beq t0, zero, '' @ else_label)
                         (accept_expression guard G2))))))"
| "cg_visit_statement (ConditionalStatement guard then_block (Some (BlockStatement ss)) ln) G =
     (case Label ''else'' G of (else_label, G1) \<Rightarrow>
      case Label ''endif'' G1 of (end_label, G2) \<Rightarrow>
        emit (end_label @ '':'')
          (if ss \<noteq> []
           then fold cg_visit_statement ss
             (emit (else_label @ '':'')
                (emit (''    j '' @ end_label)
                   (cg_visit_statement then_block
                      (emit (''    beq t0, zero, '' @ else_label)
                         (accept_expression guard G2)))))
           else
             (emit (else_label @ '':'')
                (emit (''    j '' @ end_label)
                   (cg_visit_statement then_block
                      (emit (''    beq t0, zero, '' @ else_label)
                         (accept_expression guard G2)))))))"
| "cg_visit_statement (ConditionalStatement guard then_block (Some else_block) ln) G =
     (case Label ''else'' G of (else_label, G1) \<Rightarrow>
      case Label ''endif'' G1 of (end_label, G2) \<Rightarrow>
        emit (end_label @ '':'')
          (emit (else_label @ '':'')
                (emit (''    j '' @ end_label)
                   (cg_visit_statement then_block
                      (emit (''    beq t0, zero, '' @ else_label)
                         (accept_expression guard G2))))))"
| "cg_visit_statement (WhileStatement guard body ln) G =
     (case Label ''while_start'' G of (start_label, G1) \<Rightarrow>
      case Label ''while_end'' G1 of (end_label, G2) \<Rightarrow>
        emit (end_label @ '':'')
          (emit (''    j '' @ start_label)
             (cg_visit_statement body
                (emit (''    beq t0, zero, '' @ end_label)
                   (accept_expression guard
                      (emit (start_label @ '':'') G2))))))"
| "cg_visit_statement (DeleteStatement e ln) G = accept_expression e G"
| "cg_visit_statement (ReturnStatement e ln) G =
     emit (if cg_current_function G = Some ''main'' then ''    jal exit'' else ''    jr ra'')
       (emit_all (restore_frame (cg_current_locals_size G))
          (emit ''    mv a0, t0'' (accept_expression e G)))"
| "cg_visit_statement (ReturnEmptyStatement ln) G =
     emit_all
       (if cg_current_function G = Some ''main'' then [''    li a0, 0'', ''    jal exit'']
        else [''    jr ra''])
       (emit_all (restore_frame (cg_current_locals_size G)) G)"
| "cg_visit_statement (InvocationStatement e ln) G = accept_expression e G"

subsection \<open>Functions\<close>

text \<open>The dictionary \<^verbatim>\<open>local_type_env\<close> of \<^verbatim>\<open>visit_function\<close>: the parameters, then
  the locals.\<close>

definition local_type_env :: "function_node \<Rightarrow> (string \<rightharpoonup> type_node)" where
  "local_type_env func =
     fold (\<lambda>l env. env(d_name l \<mapsto> d_type l)) (f_locals func)
       (fold (\<lambda>p env. env(d_name p \<mapsto> d_type p)) (f_params func) Map.empty)"

text \<open>One round of the two loops that give each parameter and each local its slot; the
  loop state is \<^verbatim>\<open>self.locals\<close>, \<^verbatim>\<open>current_offset\<close> and \<^verbatim>\<open>total_locals_size\<close>.\<close>

definition slot_step ::
  "decl_node \<Rightarrow> (string \<rightharpoonup> int) \<times> int \<times> int \<Rightarrow> (string \<rightharpoonup> int) \<times> int \<times> int" where
  "slot_step d = (\<lambda>(locals, current_offset, total_locals_size).
     (locals(d_name d \<mapsto> - (current_offset + type_size (d_type d))),
      current_offset + type_size (d_type d),
      total_locals_size + type_size (d_type d)))"

definition allocate_slots :: "function_node \<Rightarrow> (string \<rightharpoonup> int) \<times> int \<times> int" where
  "allocate_slots func =
     fold slot_step (f_locals func) (fold slot_step (f_params func) (Map.empty, 0, 0))"

definition total_locals_size :: "function_node \<Rightarrow> int" where
  "total_locals_size func = snd (snd (allocate_slots func))"

text \<open>The loop over \<^verbatim>\<open>enumerate(func.params)\<close> that stores the argument registers,
  from index \<open>i\<close> on. \<^verbatim>\<open>self.locals[pname]\<close> is always present there, since the first
  loop has put every parameter name in.\<close>

fun save_params :: "codegen \<Rightarrow> nat \<Rightarrow> decl_node list \<Rightarrow> string list" where
  "save_params G i [] = []"
| "save_params G i (param # params) =
     (if i < 8 then
        (case cg_locals G (d_name param) of
           Some offset \<Rightarrow> [''    sw a'' @ str_int (int i) @ '', '' @ str_int offset @ ''(fp)'']
         | None \<Rightarrow> [])
      else [])
     @ save_params G (Suc i) params"

text \<open>\<^verbatim>\<open>visit_function\<close> up to the loop over the body.\<close>

definition function_entry :: "function_node \<Rightarrow> codegen \<Rightarrow> codegen" where
  "function_entry func G =
     (let fname = f_name func;
          G1 = G\<lparr>cg_current_function := Some fname, cg_locals := Map.empty,
                 cg_stack_offset := 0\<rparr>;
          G2 = G1\<lparr>cg_type_environment := cg_type_environment G1 ++ local_type_env func\<rparr>;
          G3 = emit_all
                 ([fname @ '':'', ''    addi sp, sp, -8'', ''    sw ra, 4(sp)'',
                   ''    sw fp, 0(sp)'', ''    addi fp, sp, 0'']
                  @ (if fname = ''main'' \<and> cg_read G2
                     then [''    # Save input filename'', ''    lw t0, 4(a1)'',
                           ''    la t1, input_file_ptr'', ''    sw t0, 0(t1)'']
                     else []))
                 G2;
          G4 = G3\<lparr>cg_locals := fst (allocate_slots func),
                  cg_current_locals_size := total_locals_size func\<rparr>;
          G5 = emit_all
                 (if total_locals_size func > 0
                  then [''    addi sp, sp, -'' @ str_int (total_locals_size func)] else [])
                 G4
      in emit_all (save_params G5 0 (f_params func)) G5)"

text \<open>The default return that \<^verbatim>\<open>visit_function\<close> emits after the body.\<close>

definition implicit_return :: "function_node \<Rightarrow> string list" where
  "implicit_return func =
     (if f_name func = ''main'' then
        (if f_body func = [] \<or> \<not> is_return (last (f_body func)) then
           [''    # Implicit return from main'']
           @ (if total_locals_size func > 0
              then [''    addi sp, sp, '' @ str_int (total_locals_size func)] else [])
           @ [''    lw fp, 0(sp)'', ''    lw ra, 4(sp)'', ''    addi sp, sp, 8'',
              ''    li a0, 0'', ''    jal exit'']
         else [])
      else
        (if f_body func = [] \<or> \<not> is_return (last (f_body func)) then
           [''    # Implicit return'']
           @ (if total_locals_size func > 0
              then [''    addi sp, sp, '' @ str_int (total_locals_size func)] else [])
           @ [''    lw fp, 0(sp)'', ''    lw ra, 4(sp)'', ''    addi sp, sp, 8'',
              ''    jr ra'']
         else []))"

text \<open>The end of \<^verbatim>\<open>visit_function\<close>: the empty line, and every key of
  \<^verbatim>\<open>local_type_env\<close> is deleted from \<^verbatim>\<open>self.type_environment\<close>.\<close>

definition function_exit :: "function_node \<Rightarrow> codegen \<Rightarrow> codegen" where
  "function_exit func G =
     (emit [] G)
       \<lparr>cg_current_function := None,
        cg_type_environment :=
          fold (\<lambda>key env. if key \<in> dom env then env(key := None) else env)
            (map d_name (f_params func @ f_locals func)) (cg_type_environment G)\<rparr>"

definition function_body :: "function_node \<Rightarrow> codegen \<Rightarrow> codegen" where
  "function_body func G = fold cg_visit_statement (f_body func) G"

definition cg_visit_function :: "function_node \<Rightarrow> codegen \<Rightarrow> codegen" where
  "cg_visit_function func G =
     function_exit func
       (emit_all (implicit_return func) (function_body func (function_entry func G)))"

subsection \<open>The program\<close>

definition global_slot :: "decl_node \<Rightarrow> codegen \<Rightarrow> codegen" where
  "global_slot decl G =
     emit ((''global_'' @ d_name decl) @ '': .space '' @ str_int (type_size (d_type decl)))
       (G\<lparr>cg_globals := (cg_globals G)(d_name decl \<mapsto> ''global_'' @ d_name decl)\<rparr>)"

text \<open>\<^verbatim>\<open>visit_program\<close> up to the loop over the functions.\<close>

definition program_header :: "program \<Rightarrow> codegen \<Rightarrow> codegen" where
  "program_header prog G =
     (let G1 = fold calculate_struct_layout (p_types prog) G;
          G2 = G1\<lparr>cg_type_environment :=
                    fold (\<lambda>decl env. env(d_name decl \<mapsto> d_type decl)) (p_declarations prog)
                      (cg_type_environment G1)\<rparr>;
          G3 = emit ''.import berkeley_utils.s'' (emit ''.globl main'' G2);
          G4 = G3\<lparr>cg_read := check_for_read prog\<rparr>;
          G5 = (if cg_read G4 then emit ''.import read_int.s'' G4 else G4);
          G6 = emit ''.data'' (emit [] G5);
          G7 = (if cg_read G6 then emit ''input_file_ptr: .space 4'' G6 else G6);
          G8 = fold global_slot (p_declarations prog) G7
      in emit [] (emit ''.text'' (emit [] G8)))"

definition cg_visit_program :: "program \<Rightarrow> codegen \<Rightarrow> codegen" where
  "cg_visit_program prog G = fold cg_visit_function (p_functions prog) (program_header prog G)"

subsection \<open>Notions used in the statements about the generator\<close>

text \<open>
  The stack-pointer effect of emitted text. The only instruction of the generator that
  writes \<^verbatim>\<open>sp\<close> is \<^verbatim>\<open>addi sp, sp, k\<close>; \<open>sp_delta\<close> reads \<open>k\<close> back from such a
  line (and is 0 for any other line), and \<open>sp_effect\<close> adds it up over a sequence.
\<close>

definition digit_val :: "char \<Rightarrow> nat" where
  "digit_val c = of_char c - 48"

definition parse_nat :: "string \<Rightarrow> nat" where
  "parse_nat s = foldl (\<lambda>a c. 10 * a + digit_val c) 0 s"

definition parse_int :: "string \<Rightarrow> int" where
  "parse_int s = (case s of
                    c # r \<Rightarrow> if c = CHR ''-'' then - int (parse_nat r) else int (parse_nat s)
                  | [] \<Rightarrow> 0)"

definition sp_delta :: "string \<Rightarrow> int" where
  "sp_delta line =
     (if prefix ''    addi sp, sp, '' line
      then parse_int (drop (length ''    addi sp, sp, '') line) else 0)"

definition sp_effect :: "string list \<Rightarrow> int" where
  "sp_effect code = sum_list (map sp_delta code)"

text \<open>The names a function declares: its parameters and its locals.\<close>

definition declared_names :: "function_node \<Rightarrow> string list" where
  "declared_names func = map d_name (f_params func @ f_locals func)"

text \<open>An import declaration in the emitted text: a line \<^verbatim>\<open>.import <file>.s\<close>.\<close>

definition import_line :: "string \<Rightarrow> bool" where
  "import_line l = (prefix ''.import '' l \<and> suffix ''.s'' l)"


section \<open>Properties of the semantic analyzer\<close>

lemma Error_simps [simp]:
  "sa_printed (Error m l A) = sa_printed A @ [(m, l)]"
  "sa_structs (Error m l A) = sa_structs A"
  "sa_functions (Error m l A) = sa_functions A"
  "sa_globals (Error m l A) = sa_globals A"
  "sa_current_scope (Error m l A) = sa_current_scope A"
  "sa_current_function (Error m l A) = sa_current_function A"
  by (simp_all add: Error_def)

subsection \<open>Registration of structs\<close>

lemma field_step_structs:
  "sa_structs (snd (field_step sn f (seen, A))) = sa_structs A"
  by (simp add: field_step_def Let_def split: type_node.splits)

lemma field_step_printed:
  "filter is_undefined_field (sa_printed (snd (field_step sn f (seen, A)))) =
   filter is_undefined_field (sa_printed A) @
   (case d_type f of
      StructType sname tln \<Rightarrow>
        if sname \<in> dom (sa_structs A) \<or> sname = sn then []
        else [(''Undefined struct of name: '' @ [CHR 0x27] @ sname @ [CHR 0x27], d_linenum f)]
    | _ \<Rightarrow> [])"
  by (simp add: field_step_def Let_def is_undefined_field_def split: type_node.splits)

lemma fold_field_step:
  "sa_structs (snd (fold (field_step sn) fs (seen, A))) = sa_structs A \<and>
   filter is_undefined_field (sa_printed (snd (fold (field_step sn) fs (seen, A)))) =
   filter is_undefined_field (sa_printed A) @
   concat (map (\<lambda>f. case d_type f of
      StructType sname tln \<Rightarrow>
        if sname \<in> dom (sa_structs A) \<or> sname = sn then []
        else [(''Undefined struct of name: '' @ [CHR 0x27] @ sname @ [CHR 0x27], d_linenum f)]
    | _ \<Rightarrow> []) fs)"
proof (induction fs arbitrary: seen A)
  case Nil
  then show ?case by simp
next
  case (Cons f fs)
  obtain seen' A' where st: "field_step sn f (seen, A) = (seen', A')"
    by (cases "field_step sn f (seen, A)")
  have s: "sa_structs A' = sa_structs A"
    using field_step_structs [of sn f seen A] st by simp
  have p: "filter is_undefined_field (sa_printed A') =
   filter is_undefined_field (sa_printed A) @
   (case d_type f of
      StructType sname tln \<Rightarrow>
        if sname \<in> dom (sa_structs A) \<or> sname = sn then []
        else [(''Undefined struct of name: '' @ [CHR 0x27] @ sname @ [CHR 0x27], d_linenum f)]
    | _ \<Rightarrow> [])"
    using field_step_printed [of sn f seen A] st by simp
  show ?case using Cons.IH [of seen' A', unfolded s] by (simp add: st s p)
qed

lemma register_struct_structs:
  "dom (sa_structs (register_struct t A)) = insert (td_name t) (dom (sa_structs A))"
  by (auto simp: register_struct_def Let_def sa_visit_type_declaration_def fold_field_step)

lemma register_struct_printed:
  assumes "dom (sa_structs A) = set earlier"
  shows "filter is_undefined_field (sa_printed (register_struct t A)) =
         filter is_undefined_field (sa_printed A) @ undefined_field_diagnostics earlier t"
proof -
  have "\<And>x. x \<in> set earlier \<longleftrightarrow> x \<in> dom (sa_structs A)" using assms by simp
  then show ?thesis
  using assms
  apply (simp add: register_struct_def Let_def sa_visit_type_declaration_def fold_field_step
      undefined_field_diagnostics_def is_undefined_field_def)
  apply (intro conjI impI arg_cong [where f = concat] map_cong refl)
   apply (auto split: type_node.splits)
  done
qed

lemma upt_0_Suc_shift: "[0..<Suc n] = 0 # map Suc [0..<n]"
  by (simp add: upt_conv_Cons map_Suc_upt del: upt_Suc)

lemma fold_register_struct:
  assumes "dom (sa_structs A) = set earlier"
  shows "dom (sa_structs (fold register_struct ts A)) = set earlier \<union> set (map td_name ts) \<and>
         filter is_undefined_field (sa_printed (fold register_struct ts A)) =
         filter is_undefined_field (sa_printed A) @
         concat (map (\<lambda>i. undefined_field_diagnostics (earlier @ map td_name (take i ts)) (ts ! i))
                   [0..<length ts])"
  using assms
proof (induction ts arbitrary: A earlier)
  case Nil
  then show ?case by simp
next
  case (Cons t ts)
  have d: "dom (sa_structs (register_struct t A)) = set (earlier @ [td_name t])"
    using Cons.prems by (simp add: register_struct_structs)
  have p: "filter is_undefined_field (sa_printed (register_struct t A)) =
           filter is_undefined_field (sa_printed A) @ undefined_field_diagnostics earlier t"
    using Cons.prems by (rule register_struct_printed)
  show ?case
    using Cons.IH [OF d]
    by (simp add: p upt_0_Suc_shift comp_def del: upt_Suc)
qed

text \<open>
  C2. The first loop of \<^verbatim>\<open>visit_program\<close> registers the structs one at a time in
  declaration order: after it, exactly the declared names are registered, and the
  ``undefined struct'' diagnostics it has printed are, declaration by declaration and
  field by field, those of the fields whose type names a struct that is not declared
  before the field's own struct and is not that struct itself. So a field naming a struct
  declared only later (or never) gets the diagnostic, and a self-reference gets none.
\<close>

theorem structs_registered_in_order:
  "dom (sa_structs (fold register_struct ts SemanticAnalyzer_init)) = set (map td_name ts) \<and>
   filter is_undefined_field (sa_printed (fold register_struct ts SemanticAnalyzer_init)) =
   concat (map (\<lambda>i. undefined_field_diagnostics (map td_name (take i ts)) (ts ! i))
             [0..<length ts])"
  using fold_register_struct [of SemanticAnalyzer_init "[]" ts]
  by (simp add: SemanticAnalyzer_init_def)

text \<open>An instance: \<^verbatim>\<open>struct A { struct B b; struct A a; }; struct B { struct A a; };\<close>
  prints one diagnostic, for the field \<^verbatim>\<open>b\<close> of \<^verbatim>\<open>A\<close>.\<close>

lemma forward_reference_example:
  "sa_printed (fold register_struct
     [TypeDeclaration ''A'' [Declaration ''b'' (StructType ''B'' 2) 2,
                             Declaration ''a'' (StructType ''A'' 3) 3] 1,
      TypeDeclaration ''B'' [Declaration ''a'' (StructType ''A'' 5) 5] 4]
     SemanticAnalyzer_init) =
   [(''Undefined struct of name: '' @ [CHR 0x27] @ ''B'' @ [CHR 0x27], 2)]"
  by (simp add: register_struct_def sa_visit_type_declaration_def field_step_def
      SemanticAnalyzer_init_def Error_def Let_def)

subsection \<open>The return check\<close>

lemma is_missing_return_pair [simp]:
  "is_missing_return (m, l) = (m = ''Missing return statement'')"
  by (simp add: is_missing_return_def)

lemma Type_not_void: "Type A t \<noteq> Some VOID_ty"
  by (cases t) auto

lemma binary_check_no_missing:
  "filter is_missing_return (snd (binary_check op lt rt ln)) = []"
  by (simp add: binary_check_def)

lemma expr_type_no_missing:
  "filter is_missing_return (snd (expr_type A e)) = []"
  "filter is_missing_return (check_arguments A args ps) = []"
  by (induction A e and A args ps rule: expr_type_check_arguments.induct)
     (simp_all add: binary_check_no_missing split: option.split ty.split)

lemma lhs_type_no_missing:
  "filter is_missing_return (snd (lhs_type A lhs)) = []"
  by (cases lhs) (simp_all add: lhs_type_def expr_type_no_missing)

lemma lvalue_type_no_missing:
  "filter is_missing_return (snd (lvalue_type A l)) = []"
  by (cases l) (simp_all add: lhs_type_no_missing split: option.split ty.split)

lemma guard_check_no_missing:
  "m \<noteq> ''Missing return statement'' \<Longrightarrow> filter is_missing_return (guard_check A g m ln) = []"
  by (simp add: guard_check_def expr_type_no_missing)

lemma sa_visit_statement_no_missing:
  "filter is_missing_return (sa_visit_statement A s) = []"
  by (induction A s rule: sa_visit_statement.induct)
     (simp_all add: filter_concat comp_def expr_type_no_missing lvalue_type_no_missing
        guard_check_no_missing split: option.split)

lemma param_step_no_missing:
  "filter is_missing_return (sa_printed (snd (param_step p (sc, A)))) =
   filter is_missing_return (sa_printed A)"
  by (simp add: param_step_def define_symbol_def Let_def split: type_node.split)

lemma local_step_no_missing:
  "filter is_missing_return (sa_printed (snd (local_step p (sc, A)))) =
   filter is_missing_return (sa_printed A)"
  by (simp add: local_step_def define_symbol_def Let_def split: type_node.split)

lemma fold_param_step_no_missing:
  "filter is_missing_return (sa_printed (snd (fold param_step ps (sc, A)))) =
   filter is_missing_return (sa_printed A)"
proof (induction ps arbitrary: sc A)
  case Nil
  show ?case by simp
next
  case (Cons p ps)
  obtain sc' A' where st: "param_step p (sc, A) = (sc', A')" by (cases "param_step p (sc, A)")
  show ?case using Cons.IH [of sc' A'] param_step_no_missing [of p sc A] by (simp add: st)
qed

lemma fold_local_step_no_missing:
  "filter is_missing_return (sa_printed (snd (fold local_step ps (sc, A)))) =
   filter is_missing_return (sa_printed A)"
proof (induction ps arbitrary: sc A)
  case Nil
  show ?case by simp
next
  case (Cons p ps)
  obtain sc' A' where st: "local_step p (sc, A) = (sc', A')" by (cases "local_step p (sc, A)")
  show ?case using Cons.IH [of sc' A'] local_step_no_missing [of p sc A] by (simp add: st)
qed

lemma return_check_conditional:
  assumes "f_ret_type func \<noteq> ReturnTypeVoid" and "f_body func \<noteq> []"
    and "last (f_body func) = ConditionalStatement g t e ln"
  shows "return_check func A = Error ''Missing return statement'' (f_linenum func) A"
proof -
  obtain rt where "f_ret_type func = ReturnTypeReal rt"
    using assms(1) by (cases "f_ret_type func") auto
  then have "Type_ret A (f_ret_type func) \<noteq> Some VOID_ty" by (simp add: Type_not_void)
  then show ?thesis using assms(2,3) by (simp add: return_check_def)
qed

text \<open>
  C3. For a function whose declared return type is not void and whose body ends in a
  conditional statement, \<^verbatim>\<open>visit_function\<close> prints exactly one ``Missing return
  statement'' diagnostic, at the function's line, whatever the branches of the
  conditional contain: the check reads the last statement of the body only, and no
  statement or expression visit prints that message.
\<close>

theorem missing_return_last_conditional:
  assumes "f_ret_type func \<noteq> ReturnTypeVoid" and "f_body func \<noteq> []"
    and "last (f_body func) = ConditionalStatement g t e ln"
  shows "filter is_missing_return (sa_printed (sa_visit_function func A)) =
         filter is_missing_return (sa_printed A) @ [(''Missing return statement'', f_linenum func)]"
proof -
  obtain sc1 A1 where p1: "fold param_step (f_params func)
      (SymbolTable (Some (sa_globals A)) Map.empty (f_name func @ ''()''), A) = (sc1, A1)"
    by (cases "fold param_step (f_params func)
      (SymbolTable (Some (sa_globals A)) Map.empty (f_name func @ ''()''), A)")
  obtain sc2 A2 where p2: "fold local_step (f_locals func) (sc1, A1) = (sc2, A2)"
    by (cases "fold local_step (f_locals func) (sc1, A1)")
  have a1: "filter is_missing_return (sa_printed A1) = filter is_missing_return (sa_printed A)"
    using fold_param_step_no_missing [of "f_params func"
        "SymbolTable (Some (sa_globals A)) Map.empty (f_name func @ ''()'')" A]
    by (simp only: p1 snd_conv)
  have a2: "filter is_missing_return (sa_printed A2) = filter is_missing_return (sa_printed A1)"
    using fold_local_step_no_missing [of "f_locals func" sc1 A1] by (simp only: p2 snd_conv)
  show ?thesis
    by (simp add: sa_visit_function_def Let_def p1 p2 return_check_conditional [OF assms]
        a1 a2 filter_concat comp_def sa_visit_statement_no_missing)
qed

text \<open>The function \<^verbatim>\<open>fun f() int { if (true) { return 1; } else { return 2; } }\<close>: both
  branches return an int, and the one diagnostic is printed.\<close>

theorem missing_return_last_conditional_witness:
  "f_ret_type (Function ''f'' [] [] (ReturnTypeReal IntType)
      [ConditionalStatement (TrueExpression 2)
         (BlockStatement [ReturnStatement (IntegerExpression 1 3) 3])
         (Some (BlockStatement [ReturnStatement (IntegerExpression 2 5) 5])) 2] 1) \<noteq> ReturnTypeVoid \<and>
   filter is_missing_return (sa_printed (sa_visit_function
     (Function ''f'' [] [] (ReturnTypeReal IntType)
      [ConditionalStatement (TrueExpression 2)
         (BlockStatement [ReturnStatement (IntegerExpression 1 3) 3])
         (Some (BlockStatement [ReturnStatement (IntegerExpression 2 5) 5])) 2] 1)
     SemanticAnalyzer_init)) = [(''Missing return statement'', 1)]"
  using missing_return_last_conditional [of
     "Function ''f'' [] [] (ReturnTypeReal IntType)
      [ConditionalStatement (TrueExpression 2)
         (BlockStatement [ReturnStatement (IntegerExpression 1 3) 3])
         (Some (BlockStatement [ReturnStatement (IntegerExpression 2 5) 5])) 2] 1"
     "TrueExpression 2" "BlockStatement [ReturnStatement (IntegerExpression 1 3) 3]"
     "Some (BlockStatement [ReturnStatement (IntegerExpression 2 5) 5])" 2
     SemanticAnalyzer_init]
  by (simp add: SemanticAnalyzer_init_def)

subsection \<open>Unresolved operands\<close>

lemmas sa_defs = sa_visit_program_def register_struct_def global_step_def register_function_def
  sa_visit_function_def check_main_def return_check_def param_step_def local_step_def
  define_symbol_def lookup_local_def SemanticAnalyzer_init_def Error_def Let_def
  sa_visit_type_declaration_def field_step_def guard_check_def lhs_type_def binary_check_def

text \<open>A unary or binary expression with an operand that has no type prints nothing of
  its own and has no type; \<^verbatim>\<open>delete\<close> of an undefined variable prints the one diagnostic
  of the variable.\<close>

lemma binary_unresolved_operand:
  "fst (expr_type A left) = None \<or> fst (expr_type A right) = None \<Longrightarrow>
   expr_type A (BinaryExpression op left right ln) =
     (None, snd (expr_type A left) @ snd (expr_type A right))"
  by (auto split: option.split)

lemma unary_unresolved_operand:
  "fst (expr_type A operand) = None \<Longrightarrow>
   expr_type A (UnaryExpression op operand ln) = (None, snd (expr_type A operand))"
  by simp

lemma delete_unresolved_operand:
  "sa_printed (sa_visit_program
     (Program [] []
        [Function ''main'' [] [] (ReturnTypeReal IntType)
           [DeleteStatement (IdentifierExpression ''x'' 2) 2,
            ReturnStatement (IntegerExpression 0 3) 3] 1])
     SemanticAnalyzer_init) =
   [(''Undefined variable '' @ [CHR 0x27] @ ''x'' @ [CHR 0x27], 2)]"
  by (simp add: sa_defs)

text \<open>
  C4. The claim says that a print statement whose operand has no type prints no
  ``print requires int''. \<^verbatim>\<open>visit_print_statement\<close> and \<^verbatim>\<open>visit_println_statement\<close>
  test \<^verbatim>\<open>t != INT\<close> without the guard on \<^verbatim>\<open>t\<close> that the other statement checks have:
  the program \<^verbatim>\<open>fun main() int { print x; return 0; }\<close> with no variable \<^verbatim>\<open>x\<close> gets
  the diagnostic of the undefined variable and ``print requires int'' as well.
\<close>

theorem print_unresolved_operand:
  "sa_printed (sa_visit_program
     (Program [] []
        [Function ''main'' [] [] (ReturnTypeReal IntType)
           [PrintStatement (IdentifierExpression ''x'' 2) 2,
            ReturnStatement (IntegerExpression 0 3) 3] 1])
     SemanticAnalyzer_init) =
   [(''Undefined variable '' @ [CHR 0x27] @ ''x'' @ [CHR 0x27], 2),
    (''print requires int'', 2)]"
  by (simp add: sa_defs)

subsection \<open>Calls with a wrong number of arguments\<close>

lemma check_arguments_zip:
  "check_arguments A args ps =
   concat (map (\<lambda>(a, p). check_arguments A [a] [p]) (zip args ps))"
proof (induction args arbitrary: ps)
  case Nil
  show ?case by simp
next
  case (Cons a args)
  show ?case
  proof (cases ps)
    case Nil
    then show ?thesis by simp
  next
    case (Cons p ps')
    then show ?thesis using Cons.IH [of ps'] by simp
  qed
qed

text \<open>
  C5, as the claim states it, fails: with \<^verbatim>\<open>fun f(int a, int b) void\<close>, the call
  \<^verbatim>\<open>f(true)\<close> prints ``Wrong number of arguments'' and then ``Argument type
  mismatch'' for the first position.
\<close>

theorem wrong_argument_count_counterexample:
  "sa_printed (sa_visit_program
     (Program [] []
        [Function ''f'' [Declaration ''a'' IntType 1, Declaration ''b'' IntType 1] []
           ReturnTypeVoid [] 1,
         Function ''main'' [] [] (ReturnTypeReal IntType)
           [InvocationStatement (InvocationExpression ''f'' [TrueExpression 3] 3) 3,
            ReturnStatement (IntegerExpression 0 4) 4] 2])
     SemanticAnalyzer_init) =
   [(''Wrong number of arguments to '' @ [CHR 0x27] @ ''f'' @ [CHR 0x27], 3),
    (''Argument type mismatch'', 3)]"
  by (simp add: sa_defs)

text \<open>
  C5, amended. A call of a known function with an argument count that differs from the
  parameter count prints ``Wrong number of arguments'' once, first; after it come the
  diagnostics of the per-position check (the visit of the argument and the comparison of
  its type with the parameter's) for every position that has both an argument and a
  parameter, in order.
\<close>

theorem wrong_argument_count:
  assumes "sa_functions A fname = Some fn" and "length (f_params fn) \<noteq> length args"
  shows "snd (expr_type A (InvocationExpression fname args ln)) =
         (''Wrong number of arguments to '' @ [CHR 0x27] @ fname @ [CHR 0x27], ln) #
         concat (map (\<lambda>(a, p). check_arguments A [a] [p]) (zip args (f_params fn)))"
  using assms check_arguments_zip [of A args "f_params fn"] by simp

theorem wrong_argument_count_witness:
  "sa_functions (SemanticAnalyzer_init\<lparr>sa_functions :=
       [''f'' \<mapsto> Function ''f'' [Declaration ''a'' IntType 1, Declaration ''b'' IntType 1] []
                      ReturnTypeVoid [] 1]\<rparr>) ''f'' =
     Some (Function ''f'' [Declaration ''a'' IntType 1, Declaration ''b'' IntType 1] []
                      ReturnTypeVoid [] 1) \<and>
   snd (expr_type (SemanticAnalyzer_init\<lparr>sa_functions :=
       [''f'' \<mapsto> Function ''f'' [Declaration ''a'' IntType 1, Declaration ''b'' IntType 1] []
                      ReturnTypeVoid [] 1]\<rparr>)
        (InvocationExpression ''f'' [TrueExpression 3] 3)) =
   [(''Wrong number of arguments to '' @ [CHR 0x27] @ ''f'' @ [CHR 0x27], 3),
    (''Argument type mismatch'', 3)]"
  using wrong_argument_count [of
      "SemanticAnalyzer_init\<lparr>sa_functions :=
       [''f'' \<mapsto> Function ''f'' [Declaration ''a'' IntType 1, Declaration ''b'' IntType 1] []
                      ReturnTypeVoid [] 1]\<rparr>" "''f''"
      "Function ''f'' [Declaration ''a'' IntType 1, Declaration ''b'' IntType 1] []
                      ReturnTypeVoid [] 1" "[TrueExpression 3]" 3]
  by (simp add: SemanticAnalyzer_init_def)


subsection \<open>Duplicate field names are reported\<close>

text \<open>
  The error count never goes down, and a struct declaration with two fields of the same
  name adds to it. So a program that passes the analysis (and only such a program is
  given to the code generator) has distinct field names in every struct declaration.
\<close>


lemma field_step_seen:
  "fst (field_step sn f (seen, A)) = insert (d_name f) seen"
  by (auto simp: field_step_def Let_def split: type_node.splits)

lemma field_step_length:
  "length (sa_printed A) \<le> length (sa_printed (snd (field_step sn f (seen, A))))"
  by (simp add: field_step_def Let_def split: type_node.split)

lemma field_step_duplicate:
  "d_name f \<in> seen \<Longrightarrow>
   length (sa_printed A) < length (sa_printed (snd (field_step sn f (seen, A))))"
  by (simp add: field_step_def Let_def split: type_node.split)

lemma fold_field_step_length:
  "length (sa_printed A) \<le> length (sa_printed (snd (fold (field_step sn) fs (seen, A))))"
proof (induction fs arbitrary: seen A)
  case Nil
  show ?case by simp
next
  case (Cons f fs)
  obtain seen' A' where st: "field_step sn f (seen, A) = (seen', A')"
    by (cases "field_step sn f (seen, A)")
  have "length (sa_printed A) \<le> length (sa_printed A')"
    using field_step_length [of A sn f seen] st by simp
  moreover have "length (sa_printed A') \<le>
                 length (sa_printed (snd (fold (field_step sn) fs (seen', A'))))"
    by (rule Cons.IH)
  ultimately show ?case by (simp add: st)
qed

lemma fold_field_step_duplicate:
  "\<not> distinct (map d_name fs) \<or> (\<exists>f \<in> set fs. d_name f \<in> seen) \<Longrightarrow>
   length (sa_printed A) < length (sa_printed (snd (fold (field_step sn) fs (seen, A))))"
proof (induction fs arbitrary: seen A)
  case Nil
  then show ?case by simp
next
  case (Cons f fs)
  obtain seen' A' where st: "field_step sn f (seen, A) = (seen', A')"
    by (cases "field_step sn f (seen, A)")
  have seen': "seen' = insert (d_name f) seen"
    using field_step_seen [of sn f seen A] st by simp
  have le: "length (sa_printed A) \<le> length (sa_printed A')"
    using field_step_length [of A sn f seen] st by simp
  show ?case
  proof (cases "d_name f \<in> seen")
    case True
    then have "length (sa_printed A) < length (sa_printed A')"
      using field_step_duplicate [of f seen A sn] st by simp
    then show ?thesis using fold_field_step_length [of A' sn fs seen'] by (simp add: st)
  next
    case False
    then have "\<not> distinct (map d_name fs) \<or> (\<exists>g \<in> set fs. d_name g \<in> seen')"
      using Cons.prems seen' by auto
    then have "length (sa_printed A') < length (sa_printed (snd (fold (field_step sn) fs (seen', A'))))"
      by (rule Cons.IH)
    then show ?thesis using le by (simp add: st)
  qed
qed

lemma register_struct_length:
  "length (sa_printed A) \<le> length (sa_printed (register_struct t A))"
proof -
  have "\<And>B. length (sa_printed B) \<le> length (sa_printed (sa_visit_type_declaration t B))"
    by (simp add: sa_visit_type_declaration_def fold_field_step_length)
  from this [of "Error (''Duplicate struct '' @ [CHR 0x27] @ td_name t @ [CHR 0x27]) (td_linenum t) A"]
       this [of "A\<lparr>sa_structs := (sa_structs A)(td_name t \<mapsto> t)\<rparr>"]
  show ?thesis by (simp add: register_struct_def Let_def)
qed

lemma register_struct_duplicate:
  assumes "\<not> distinct (map d_name (td_fields t))"
  shows "length (sa_printed A) < length (sa_printed (register_struct t A))"
proof -
  have "\<And>B. length (sa_printed B) < length (sa_printed (sa_visit_type_declaration t B))"
    using assms by (simp add: sa_visit_type_declaration_def fold_field_step_duplicate)
  from this [of "Error (''Duplicate struct '' @ [CHR 0x27] @ td_name t @ [CHR 0x27]) (td_linenum t) A"]
       this [of "A\<lparr>sa_structs := (sa_structs A)(td_name t \<mapsto> t)\<rparr>"]
  show ?thesis by (simp add: register_struct_def Let_def)
qed

lemma fold_length_mono:
  "(\<And>x A. length (sa_printed A) \<le> length (sa_printed (f x A))) \<Longrightarrow>
   length (sa_printed A) \<le> length (sa_printed (fold f xs A))"
proof (induction xs arbitrary: A)
  case Nil
  show ?case by simp
next
  case (Cons x xs)
  have "length (sa_printed A) \<le> length (sa_printed (f x A))" by (rule Cons.prems)
  moreover have "length (sa_printed (f x A)) \<le> length (sa_printed (fold f xs (f x A)))"
    using Cons.prems by (rule Cons.IH)
  ultimately show ?case by simp
qed

lemma fold_register_struct_duplicate:
  "\<exists>t \<in> set ts. \<not> distinct (map d_name (td_fields t)) \<Longrightarrow>
   length (sa_printed A) < length (sa_printed (fold register_struct ts A))"
proof (induction ts arbitrary: A)
  case Nil
  then show ?case by simp
next
  case (Cons t ts)
  show ?case
  proof (cases "distinct (map d_name (td_fields t))")
    case True
    then have "\<exists>t \<in> set ts. \<not> distinct (map d_name (td_fields t))" using Cons.prems by simp
    then have "length (sa_printed (register_struct t A)) <
               length (sa_printed (fold register_struct ts (register_struct t A)))"
      by (rule Cons.IH)
    then show ?thesis using register_struct_length [of A t] by simp
  next
    case False
    then have "length (sa_printed A) < length (sa_printed (register_struct t A))"
      by (rule register_struct_duplicate)
    moreover have "length (sa_printed (register_struct t A)) \<le>
                   length (sa_printed (fold register_struct ts (register_struct t A)))"
      by (rule fold_length_mono) (rule register_struct_length)
    ultimately show ?thesis by simp
  qed
qed


lemma sa_visit_type_length:
  "length (sa_printed A) \<le> length (sa_printed (sa_visit_type t A))"
  by (cases t) simp_all

lemma global_step_length:
  "length (sa_printed A) \<le> length (sa_printed (global_step d A))"
proof -
  have "\<And>B. length (sa_printed A) \<le> length (sa_printed B) \<Longrightarrow>
            length (sa_printed A) \<le> length (sa_printed (sa_visit_type (d_type d) B))"
    using sa_visit_type_length le_trans by blast
  then show ?thesis
    by (simp add: global_step_def Let_def define_symbol_def lookup_local_def
        split: type_node.split)
qed

lemma register_function_length:
  "length (sa_printed A) \<le> length (sa_printed (register_function f A))"
  by (simp add: register_function_def Let_def)

lemma param_step_length:
  "length (sa_printed A) \<le> length (sa_printed (snd (param_step p (sc, A))))"
  by (simp add: param_step_def define_symbol_def Let_def split: type_node.split)

lemma local_step_length:
  "length (sa_printed A) \<le> length (sa_printed (snd (local_step p (sc, A))))"
  by (simp add: local_step_def define_symbol_def Let_def split: type_node.split)

lemma fold_pair_length:
  "(\<And>x sc A. length (sa_printed A) \<le> length (sa_printed (snd (f x (sc, A))))) \<Longrightarrow>
   length (sa_printed A) \<le> length (sa_printed (snd (fold f xs (sc, A))))"
proof (induction xs arbitrary: sc A)
  case Nil
  show ?case by simp
next
  case (Cons x xs)
  obtain sc' A' where st: "f x (sc, A) = (sc', A')" by (cases "f x (sc, A)")
  have "length (sa_printed A) \<le> length (sa_printed A')"
    using Cons.prems [of A x sc] st by simp
  moreover have "length (sa_printed A') \<le> length (sa_printed (snd (fold f xs (sc', A'))))"
    using Cons.prems by (rule Cons.IH)
  ultimately show ?case by (simp add: st)
qed

lemma return_check_length:
  "length (sa_printed A) \<le> length (sa_printed (return_check f A))"
  by (simp add: return_check_def Let_def split: statement.split)

lemma sa_visit_function_length:
  "length (sa_printed A) \<le> length (sa_printed (sa_visit_function f A))"
proof -
  obtain sc1 A1 where p1: "fold param_step (f_params f)
      (SymbolTable (Some (sa_globals A)) Map.empty (f_name f @ ''()''), A) = (sc1, A1)"
    by (cases "fold param_step (f_params f)
      (SymbolTable (Some (sa_globals A)) Map.empty (f_name f @ ''()''), A)")
  obtain sc2 A2 where p2: "fold local_step (f_locals f) (sc1, A1) = (sc2, A2)"
    by (cases "fold local_step (f_locals f) (sc1, A1)")
  have a1: "length (sa_printed A) \<le> length (sa_printed A1)"
    using fold_pair_length [of param_step A "f_params f"
        "SymbolTable (Some (sa_globals A)) Map.empty (f_name f @ ''()'')"]
      param_step_length
    by (simp only: p1 snd_conv)
  have a2: "length (sa_printed A1) \<le> length (sa_printed A2)"
    using fold_pair_length [of local_step A1 "f_locals f" sc1] local_step_length
    by (simp only: p2 snd_conv)
  have "\<And>B. length (sa_printed A2) \<le> length (sa_printed B) \<Longrightarrow>
            length (sa_printed A) \<le> length (sa_printed (return_check f B))"
    using a1 a2 return_check_length le_trans by blast
  then show ?thesis
    by (simp add: sa_visit_function_def Let_def p1 p2)
qed

lemma check_main_length:
  "length (sa_printed A) \<le> length (sa_printed (check_main A))"
  by (simp add: check_main_def Let_def split: option.split)

lemma analysis_rejects_duplicate_fields:
  assumes "analyze prog = 0"
  shows "\<forall>t \<in> set (p_types prog). distinct (map d_name (td_fields t))"
proof (rule ccontr)
  assume "\<not> ?thesis"
  then have "\<exists>t \<in> set (p_types prog). \<not> distinct (map d_name (td_fields t))" by simp
  then have 1: "0 < length (sa_printed (fold register_struct (p_types prog) SemanticAnalyzer_init))"
    using fold_register_struct_duplicate [of "p_types prog" SemanticAnalyzer_init]
    by (simp add: SemanticAnalyzer_init_def)
  let ?A1 = "fold register_struct (p_types prog) SemanticAnalyzer_init"
  let ?A2 = "fold global_step (p_declarations prog) ?A1"
  let ?A3 = "fold register_function (p_functions prog) ?A2"
  let ?A4 = "fold sa_visit_function (p_functions prog) ?A3"
  have "length (sa_printed ?A1) \<le> length (sa_printed ?A2)"
    by (rule fold_length_mono) (rule global_step_length)
  moreover have "length (sa_printed ?A2) \<le> length (sa_printed ?A3)"
    by (rule fold_length_mono) (rule register_function_length)
  moreover have "length (sa_printed ?A3) \<le> length (sa_printed ?A4)"
    by (rule fold_length_mono) (rule sa_visit_function_length)
  moreover have "length (sa_printed ?A4) \<le> length (sa_printed (check_main ?A4))"
    by (rule check_main_length)
  ultimately have "0 < length (sa_printed (check_main ?A4))"
    using 1 by linarith
  then have "0 < analyze prog"
    by (simp only: analyze_def errors_def sa_visit_program_def)
  then show False using assms by simp
qed


section \<open>Properties of the code generator\<close>

text \<open>The equations that evaluate the generator on a given program.\<close>

lemmas str_int_eval = str_int_def digits.simps digit_char_def

lemmas cg_defs = cg_visit_program_def program_header_def cg_visit_function_def
  function_entry_def function_body_def function_exit_def implicit_return_def
  total_locals_size_def allocate_slots_def slot_step_def local_type_env_def
  global_slot_def calculate_struct_layout_def layout_step_def check_for_read_def
  CodeGenVisitor_init_def emit_def emit_all_def accept_expression_def Label_def
  restore_frame_def load_field_def binary_operation_def unary_operation_def
  field_offset_of_def Let_def

subsection \<open>Struct layout\<close>

lemma type_size_4 [simp]: "type_size t = 4"
  by (cases t) simp_all

lemma fold_layout_step_size:
  "snd (fold layout_step fs (m, off)) = off + 4 * int (length fs)"
  by (induction fs arbitrary: m off) (simp_all add: layout_step_def)

lemma fold_layout_step_other:
  "n \<notin> set (map d_name fs) \<Longrightarrow> fst (fold layout_step fs (m, off)) n = m n"
  by (induction fs arbitrary: m off) (simp_all add: layout_step_def)

lemma fold_layout_step_dom:
  "dom (fst (fold layout_step fs (m, off))) = dom m \<union> set (map d_name fs)"
  by (induction fs arbitrary: m off) (auto simp: layout_step_def)

lemma fold_layout_step_offset:
  "distinct (map d_name fs) \<Longrightarrow> i < length fs \<Longrightarrow>
   fst (fold layout_step fs (m, off)) (d_name (fs ! i)) = Some (off + 4 * int i)"
proof (induction fs arbitrary: m off i)
  case Nil
  then show ?case by simp
next
  case (Cons f fs)
  have step: "layout_step f (m, off) = (m(d_name f \<mapsto> off), off + 4)"
    by (simp add: layout_step_def)
  show ?case
  proof (cases i)
    case 0
    have "d_name f \<notin> set (map d_name fs)" using Cons.prems(1) by simp
    then show ?thesis using 0
      by (simp add: step fold_layout_step_other)
  next
    case (Suc j)
    then have j: "j < length fs" using Cons.prems(2) by simp
    have d: "distinct (map d_name fs)" using Cons.prems(1) by simp
    have "fst (fold layout_step fs (m(d_name f \<mapsto> off), off + 4)) (d_name (fs ! j)) =
          Some (off + 4 + 4 * int j)"
      using d j by (rule Cons.IH)
    then show ?thesis using Suc by (simp add: step algebra_simps)
  qed
qed

text \<open>
  C1. For a struct declaration with distinct field names (the data model's invariant;
  \<open>analysis_rejects_duplicate_fields\<close> shows that every program that passes the analysis
  has it), \<^verbatim>\<open>_calculate_struct_layout\<close> stores for the struct a
  layout in which the field at position \<open>i\<close> (from 0) has offset \<open>4 * i\<close>, whatever its
  type: the first field is at 0 and each next one a word of 4 bytes further. The size
  stored is \<open>4 * n\<close> for \<open>n\<close> fields, and the layout has no other entries.
\<close>

theorem struct_layout_offsets:
  assumes "distinct (map d_name (td_fields tdecl))"
  shows "\<exists>entry. cg_structs (calculate_struct_layout tdecl G) (td_name tdecl) = Some entry \<and>
           sl_size entry = 4 * int (length (td_fields tdecl)) \<and>
           dom (sl_fields entry) = set (map d_name (td_fields tdecl)) \<and>
           (\<forall>i < length (td_fields tdecl).
              sl_fields entry (d_name (td_fields tdecl ! i)) = Some (4 * int i))"
proof -
  obtain layout offset where f: "fold layout_step (td_fields tdecl) (Map.empty, 0) = (layout, offset)"
    by (cases "fold layout_step (td_fields tdecl) (Map.empty, 0)")
  have "offset = 4 * int (length (td_fields tdecl))"
    using fold_layout_step_size [of "td_fields tdecl" Map.empty 0] f by simp
  moreover have "dom layout = set (map d_name (td_fields tdecl))"
    using fold_layout_step_dom [of "td_fields tdecl" Map.empty 0] f by simp
  moreover have "\<forall>i < length (td_fields tdecl). layout (d_name (td_fields tdecl ! i)) = Some (4 * int i)"
    using fold_layout_step_offset [OF assms, of _ Map.empty 0] f by simp
  ultimately show ?thesis by (simp add: calculate_struct_layout_def f)
qed

text \<open>The struct \<^verbatim>\<open>struct Node { struct Node next; int v; bool ok; }\<close>.\<close>

theorem struct_layout_offsets_witness:
  "distinct (map d_name [Declaration ''next'' (StructType ''Node'' 1) 1,
                          Declaration ''v'' IntType 2, Declaration ''ok'' BoolType 3]) \<and>
   cg_structs (calculate_struct_layout
      (TypeDeclaration ''Node'' [Declaration ''next'' (StructType ''Node'' 1) 1,
                          Declaration ''v'' IntType 2, Declaration ''ok'' BoolType 3] 1)
      CodeGenVisitor_init) ''Node'' =
   Some \<lparr>sl_fields = [''next'' \<mapsto> 0, ''v'' \<mapsto> 4, ''ok'' \<mapsto> 8], sl_size = 12\<rparr>"
  using struct_layout_offsets [of
      "TypeDeclaration ''Node'' [Declaration ''next'' (StructType ''Node'' 1) 1,
                          Declaration ''v'' IntType 2, Declaration ''ok'' BoolType 3] 1"
      CodeGenVisitor_init]
  by (simp add: calculate_struct_layout_def layout_step_def)

subsection \<open>Reading numbers back from the emitted text\<close>

lemma below_ten:
  "(d::nat) < 10 \<Longrightarrow>
   d = 0 \<or> d = 1 \<or> d = 2 \<or> d = 3 \<or> d = 4 \<or> d = 5 \<or> d = 6 \<or> d = 7 \<or> d = 8 \<or> d = 9"
  by arith

lemma digit_val_digit_char: "d < 10 \<Longrightarrow> digit_val (digit_char d) = d"
  by (drule below_ten) (auto simp: digit_val_def digit_char_def)

lemma digit_char_not_minus: "d < 10 \<Longrightarrow> digit_char d \<noteq> CHR ''-''"
  by (drule below_ten) (auto simp: digit_char_def)

lemma parse_nat_snoc: "parse_nat (s @ [c]) = 10 * parse_nat s + digit_val c"
  by (simp add: parse_nat_def)

lemma parse_nat_digits: "parse_nat (digits n) = n"
proof (induction n rule: digits.induct)
  case (1 n)
  show ?case
  proof (cases "n < 10")
    case True
    then show ?thesis
      by (simp add: digits.simps [of n] parse_nat_def digit_val_digit_char)
  next
    case False
    then show ?thesis
      using 1 by (simp add: digits.simps [of n] parse_nat_snoc digit_val_digit_char)
  qed
qed

lemma digits_first: "\<exists>c r. digits n = c # r \<and> c \<noteq> CHR ''-''"
proof (induction n rule: digits.induct)
  case (1 n)
  show ?case
  proof (cases "n < 10")
    case True
    then show ?thesis by (simp add: digits.simps [of n] digit_char_not_minus)
  next
    case False
    then obtain c r where "digits (n div 10) = c # r" "c \<noteq> CHR ''-''" using 1 by blast
    then show ?thesis using False by (simp add: digits.simps [of n])
  qed
qed

lemma parse_int_str_int: "parse_int (str_int i) = i"
proof (cases "i < 0")
  case True
  then show ?thesis by (simp add: parse_int_def str_int_def parse_nat_digits)
next
  case False
  obtain c r where d: "digits (nat i) = c # r" "c \<noteq> CHR ''-''" using digits_first by blast
  have "parse_nat (c # r) = nat i" using parse_nat_digits [of "nat i"] d by simp
  then show ?thesis using False d by (simp add: parse_int_def str_int_def)
qed

lemma parse_int_minus_str_int: "0 \<le> i \<Longrightarrow> parse_int (CHR ''-'' # str_int i) = - i"
  by (simp add: parse_int_def str_int_def parse_nat_digits)

lemma sp_delta_addi: "sp_delta (''    addi sp, sp, '' @ str_int k) = k"
  by (simp add: sp_delta_def parse_int_str_int)

lemma sp_delta_addi_minus: "0 \<le> k \<Longrightarrow> sp_delta (''    addi sp, sp, -'' @ str_int k) = - k"
  by (simp add: sp_delta_def parse_int_minus_str_int)

lemmas sp_delta_addi_cons = sp_delta_addi [simplified] sp_delta_addi_minus [simplified]

lemma sp_delta_addi_4: "sp_delta ''    addi sp, sp, 4'' = 4" "sp_delta ''    addi sp, sp, -4'' = - 4"
  using sp_delta_addi [of 4] sp_delta_addi_minus [of 4]
  by (simp_all add: str_int_def digits.simps digit_char_def)


subsection \<open>The stack pointer across an expression\<close>

lemma sp_effect_simps [simp]:
  "sp_effect [] = 0"
  "sp_effect (l # ls) = sp_delta l + sp_effect ls"
  "sp_effect (xs @ ys) = sp_effect xs + sp_effect ys"
  by (simp_all add: sp_effect_def)

lemma sp_delta_other: "\<not> prefix ''    addi sp, sp, '' l \<Longrightarrow> sp_delta l = 0"
  by (simp add: sp_delta_def)

lemma sp_effect_binary_operation: "sp_effect (binary_operation op) = 0"
  by (simp add: binary_operation_def sp_delta_other)

lemma sp_effect_unary_operation: "sp_effect (unary_operation op) = 0"
  by (simp add: unary_operation_def sp_delta_other)

lemma sp_effect_load_field: "sp_effect (load_field G sn fld) = 0"
  by (simp add: load_field_def sp_delta_other split: option.split)

lemma sp_effect_loads:
  "sp_effect (map (\<lambda>i. ''    lw a'' @ str_int (int i) @ '', '' @ str_int (int i * 4) @ ''(sp)'') is) = 0"
  by (induction "is") (simp_all add: sp_delta_other)

lemma sp_effect_expression:
  "sp_effect (cg_visit_expression G e) = 0"
  "sp_effect (cg_visit_arguments G i args) = 0"
proof (induction G e and G i args rule: cg_visit_expression_cg_visit_arguments.induct)
  case (7 G op left right ln)
  then show ?case
    by (simp add: sp_delta_addi_4 sp_delta_other sp_effect_binary_operation)
next
  case (10 G fname args ln)
  then show ?case
    by (simp add: sp_delta_addi_cons sp_delta_other sp_effect_loads [simplified])
qed (simp_all add: sp_delta_other sp_effect_unary_operation sp_effect_load_field
       split: option.split)

text \<open>
  C9. The instructions emitted for any expression leave the stack pointer where it was:
  the immediates of their \<^verbatim>\<open>addi sp, sp, k\<close> lines add up to zero. In a binary
  expression the push of the left operand is undone before the instructions of the
  operator, and in a call the argument buffer is released before the \<^verbatim>\<open>jal\<close>: the code
  up to that point already has effect zero.
\<close>

theorem expression_stack_neutral:
  "sp_effect (cg_visit_expression G e) = 0 \<and>
   (\<exists>pre. cg_visit_expression G (BinaryExpression op left right ln) =
            pre @ binary_operation op \<and> sp_effect pre = 0) \<and>
   (\<exists>pre. cg_visit_expression G (InvocationExpression fname args ln') =
            pre @ [''    jal '' @ fname, ''    mv t0, a0''] \<and> sp_effect pre = 0)"
proof -
  have b: "sp_effect (cg_visit_expression G left
             @ [''    addi sp, sp, -4'', ''    sw t0, 0(sp)  # Push left'']
             @ cg_visit_expression G right
             @ [''    mv t1, t0'', ''    lw t0, 0(sp)  # Pop left'', ''    addi sp, sp, 4'']) = 0"
    by (simp add: sp_effect_expression sp_delta_addi_4 sp_delta_other)
  have c: "sp_effect ((if int (length args) * 4 > 0
              then [''    addi sp, sp, -'' @ str_int (int (length args) * 4)] else [])
             @ cg_visit_arguments G 0 args
             @ map (\<lambda>i. ''    lw a'' @ str_int (int i) @ '', '' @ str_int (int i * 4) @ ''(sp)'')
                 [0..<min (length args) 8]
             @ (if int (length args) * 4 > 0
                then [''    addi sp, sp, '' @ str_int (int (length args) * 4)] else [])) = 0"
    by (simp add: sp_effect_expression sp_delta_addi_cons sp_effect_loads [simplified])
  show ?thesis
    apply (intro conjI)
      apply (rule sp_effect_expression(1))
     apply (rule exI [where x = "cg_visit_expression G left
             @ [''    addi sp, sp, -4'', ''    sw t0, 0(sp)  # Push left'']
             @ cg_visit_expression G right
             @ [''    mv t1, t0'', ''    lw t0, 0(sp)  # Pop left'', ''    addi sp, sp, 4'']"])
     apply (rule conjI)
      apply simp
     apply (rule b)
    apply (rule exI [where x = "(if int (length args) * 4 > 0
              then [''    addi sp, sp, -'' @ str_int (int (length args) * 4)] else [])
             @ cg_visit_arguments G 0 args
             @ map (\<lambda>i. ''    lw a'' @ str_int (int i) @ '', '' @ str_int (int i * 4) @ ''(sp)'')
                 [0..<min (length args) 8]
             @ (if int (length args) * 4 > 0
                then [''    addi sp, sp, '' @ str_int (int (length args) * 4)] else [])"])
    apply (rule conjI)
     apply simp
    apply (rule c)
    done
qed

subsection \<open>Calls\<close>

lemma cg_visit_arguments_enumerate:
  "cg_visit_arguments G i args =
   concat (map (\<lambda>(j, arg). cg_visit_expression G arg @
                              [''    sw t0, '' @ str_int (int j * 4) @ ''(sp)''])
             (enumerate i args))"
  by (induction args arbitrary: i) simp_all

text \<open>
  C7, as the claim states it, fails for calls with more than eight arguments: every
  argument is evaluated and stored in the buffer, but only the first eight stored values
  are loaded into argument registers. With nine arguments the value stored at
  \<^verbatim>\<open>32(sp)\<close> is never loaded.
\<close>

theorem invocation_code_counterexample:
  "''    lw a8, 32(sp)'' \<notin> set (cg_visit_expression CodeGenVisitor_init
     (InvocationExpression ''f''
        [IntegerExpression 1 1, IntegerExpression 2 1, IntegerExpression 3 1,
         IntegerExpression 4 1, IntegerExpression 5 1, IntegerExpression 6 1,
         IntegerExpression 7 1, IntegerExpression 8 1, IntegerExpression 9 1] 1)) \<and>
   cg_visit_expression CodeGenVisitor_init
     (InvocationExpression ''f''
        [IntegerExpression 1 1, IntegerExpression 2 1, IntegerExpression 3 1,
         IntegerExpression 4 1, IntegerExpression 5 1, IntegerExpression 6 1,
         IntegerExpression 7 1, IntegerExpression 8 1, IntegerExpression 9 1] 1) =
   [''    addi sp, sp, -36'',
    ''    li t0, 1'', ''    sw t0, 0(sp)'',
    ''    li t0, 2'', ''    sw t0, 4(sp)'',
    ''    li t0, 3'', ''    sw t0, 8(sp)'',
    ''    li t0, 4'', ''    sw t0, 12(sp)'',
    ''    li t0, 5'', ''    sw t0, 16(sp)'',
    ''    li t0, 6'', ''    sw t0, 20(sp)'',
    ''    li t0, 7'', ''    sw t0, 24(sp)'',
    ''    li t0, 8'', ''    sw t0, 28(sp)'',
    ''    li t0, 9'', ''    sw t0, 32(sp)'',
    ''    lw a0, 0(sp)'', ''    lw a1, 4(sp)'', ''    lw a2, 8(sp)'', ''    lw a3, 12(sp)'',
    ''    lw a4, 16(sp)'', ''    lw a5, 20(sp)'', ''    lw a6, 24(sp)'', ''    lw a7, 28(sp)'',
    ''    addi sp, sp, 36'',
    ''    jal f'', ''    mv t0, a0'']"
  by (simp add: str_int_eval upt_rec)

text \<open>
  C7, amended. For a call with \<open>n\<close> arguments the generator emits, in this order: the
  allocation of a buffer of \<open>n\<close> words on the stack (nothing when \<open>n = 0\<close>); for each
  argument from the first to the last, its code followed by the store of \<^verbatim>\<open>t0\<close> into
  the word of its position; the loads of the first \<open>min n 8\<close> words into \<^verbatim>\<open>a0\<close>,
  \<^verbatim>\<open>a1\<close>, ... in position order; the release of the buffer; the \<^verbatim>\<open>jal\<close>; and the
  copy of \<^verbatim>\<open>a0\<close> into \<^verbatim>\<open>t0\<close>.
\<close>

theorem invocation_code:
  "cg_visit_expression G (InvocationExpression fname args ln) =
     (if args \<noteq> [] then [''    addi sp, sp, -'' @ str_int (int (length args) * 4)] else [])
     @ concat (map (\<lambda>(j, arg). cg_visit_expression G arg @
                                [''    sw t0, '' @ str_int (int j * 4) @ ''(sp)''])
                 (enumerate 0 args))
     @ map (\<lambda>j. ''    lw a'' @ str_int (int j) @ '', '' @ str_int (int j * 4) @ ''(sp)'')
         [0..<min (length args) 8]
     @ (if args \<noteq> [] then [''    addi sp, sp, '' @ str_int (int (length args) * 4)] else [])
     @ [''    jal '' @ fname, ''    mv t0, a0'']"
  by (simp add: cg_visit_arguments_enumerate)

subsection \<open>What a statement leaves unchanged\<close>

lemma emit_simps [simp]:
  "cg_output (emit l G) = cg_output G @ [l]"
  "cg_type_environment (emit l G) = cg_type_environment G"
  "cg_label_counter (emit l G) = cg_label_counter G"
  "cg_current_function (emit l G) = cg_current_function G"
  "cg_current_locals_size (emit l G) = cg_current_locals_size G"
  "cg_locals (emit l G) = cg_locals G"
  "cg_globals (emit l G) = cg_globals G"
  "cg_structs (emit l G) = cg_structs G"
  "cg_read (emit l G) = cg_read G"
  by (simp_all add: emit_def)

lemma emit_all_simps [simp]:
  "cg_output (emit_all ls G) = cg_output G @ ls"
  "cg_type_environment (emit_all ls G) = cg_type_environment G"
  "cg_label_counter (emit_all ls G) = cg_label_counter G"
  "cg_current_function (emit_all ls G) = cg_current_function G"
  "cg_current_locals_size (emit_all ls G) = cg_current_locals_size G"
  "cg_locals (emit_all ls G) = cg_locals G"
  "cg_globals (emit_all ls G) = cg_globals G"
  "cg_structs (emit_all ls G) = cg_structs G"
  "cg_read (emit_all ls G) = cg_read G"
  by (simp_all add: emit_all_def)

lemma accept_expression_simps [simp]:
  "cg_output (accept_expression e G) = cg_output G @ cg_visit_expression G e"
  "cg_type_environment (accept_expression e G) = cg_type_environment G"
  "cg_label_counter (accept_expression e G) = cg_label_counter G"
  "cg_current_function (accept_expression e G) = cg_current_function G"
  "cg_current_locals_size (accept_expression e G) = cg_current_locals_size G"
  "cg_locals (accept_expression e G) = cg_locals G"
  "cg_globals (accept_expression e G) = cg_globals G"
  "cg_structs (accept_expression e G) = cg_structs G"
  "cg_read (accept_expression e G) = cg_read G"
  by (simp_all add: accept_expression_def)

lemma fold_preserves:
  "(\<And>x G. x \<in> set xs \<Longrightarrow> Q (f x G) = Q G) \<Longrightarrow> Q (fold f xs G) = Q G"
  by (induction xs arbitrary: G) simp_all

lemma cg_visit_statement_type_environment:
  "cg_type_environment (cg_visit_statement s G) = cg_type_environment G"
proof (induction s arbitrary: G)
  case (BlockStatement ss)
  then show ?case by (simp add: fold_preserves [where Q = cg_type_environment])
next
  case (ConditionalStatement guard then_block else_block ln)
  show ?case
  proof (cases else_block)
    case None
    then show ?thesis using ConditionalStatement by (simp add: Label_def)
  next
    case (Some eb)
    have eb: "\<And>G. cg_type_environment (cg_visit_statement eb G) = cg_type_environment G"
      using ConditionalStatement(2) Some by simp
    show ?thesis
    proof (cases eb)
      case (BlockStatement ss)
      then show ?thesis
        using ConditionalStatement(1) Some eb by (simp add: Label_def)
    qed (use ConditionalStatement(1) Some in \<open>simp_all add: Label_def\<close>)
  qed
next
  case (WhileStatement guard body ln)
  then show ?case by (simp add: Label_def)
qed simp_all


subsection \<open>The type environment across functions\<close>

lemma fold_type_env_dom:
  "dom (fold (\<lambda>d env. env(d_name d \<mapsto> d_type d)) ds env) = dom env \<union> set (map d_name ds)"
  by (induction ds arbitrary: env) auto

lemma local_type_env_dom: "dom (local_type_env func) = set (declared_names func)"
  by (auto simp: local_type_env_def declared_names_def fold_type_env_dom)

lemma function_entry_type_environment:
  "cg_type_environment (function_entry func G) = cg_type_environment G ++ local_type_env func"
  by (simp add: function_entry_def Let_def)

lemma fold_delete_keys:
  "fold (\<lambda>key env. if key \<in> dom env then env(key := None) else env) ks env n =
   (if n \<in> set ks then None else env n)"
  by (induction ks arbitrary: env) (auto simp: dom_def)

lemma function_body_type_environment:
  "cg_type_environment (function_body func G) = cg_type_environment G"
  by (simp add: function_body_def fold_preserves [where Q = cg_type_environment]
      cg_visit_statement_type_environment)

lemma cg_visit_function_type_environment:
  "cg_type_environment (cg_visit_function func G) n =
   (if n \<in> set (declared_names func) then None else cg_type_environment G n)"
proof -
  have "n \<notin> set (declared_names func) \<Longrightarrow> local_type_env func n = None"
    using local_type_env_dom [of func] by (auto simp: dom_def)
  then show ?thesis
    by (simp add: cg_visit_function_def function_exit_def fold_delete_keys
        function_body_type_environment function_entry_type_environment declared_names_def
        map_add_def)
qed

lemma fold_cg_visit_function_None:
  "cg_type_environment G g = None \<Longrightarrow>
   cg_type_environment (fold cg_visit_function fs G) g = None"
  by (induction fs arbitrary: G) (simp_all add: cg_visit_function_type_environment)

lemma fold_cg_visit_function_declared:
  "k < length fs \<Longrightarrow> g \<in> set (declared_names (fs ! k)) \<Longrightarrow>
   cg_type_environment (fold cg_visit_function fs G) g = None"
proof (induction fs arbitrary: G k)
  case Nil
  then show ?case by simp
next
  case (Cons f fs)
  show ?case
  proof (cases k)
    case 0
    then have "cg_type_environment (cg_visit_function f G) g = None"
      using Cons.prems(2) by (simp add: cg_visit_function_type_environment)
    then show ?thesis by (simp add: fold_cg_visit_function_None)
  next
    case (Suc k')
    then show ?thesis using Cons.prems Cons.IH [of k' "cg_visit_function f G"] by simp
  qed
qed

lemma dot_unknown_type:
  "cg_type_environment G g = None \<Longrightarrow>
   cg_visit_expression G (DotExpression (IdentifierExpression g ln) fld ln') =
   cg_visit_expression G (IdentifierExpression g ln) @
   [''    mv t2, t0  # Save struct pointer'',
    ''    lw t0, 0(t2)  # Load field '' @ fld @ '' (unknown struct type)'']"
  by (simp add: load_field_def)

text \<open>
  C10. When a function declares a parameter or local named \<open>g\<close>, the name is absent
  from the type environment once that function is finished, whatever was there before.
  In a later function that does not itself declare \<open>g\<close>, at any point of the body, the
  field access \<^verbatim>\<open>g.fld\<close> is therefore generated with the fallback: the load at offset 0
  marked ``unknown struct type''.
\<close>

theorem shadowed_global_loses_type:
  assumes "k < j" and "j < length fs"
    and "g \<in> set (declared_names (fs ! k))" and "g \<notin> set (declared_names (fs ! j))"
  shows "cg_type_environment (fold cg_visit_function (take (Suc k) fs) G) g = None \<and>
         cg_visit_expression
           (fold cg_visit_statement ss
              (function_entry (fs ! j) (fold cg_visit_function (take j fs) G)))
           (DotExpression (IdentifierExpression g ln) fld ln') =
         cg_visit_expression
           (fold cg_visit_statement ss
              (function_entry (fs ! j) (fold cg_visit_function (take j fs) G)))
           (IdentifierExpression g ln) @
         [''    mv t2, t0  # Save struct pointer'',
          ''    lw t0, 0(t2)  # Load field '' @ fld @ '' (unknown struct type)'']"
proof -
  have k: "k < length (take (Suc k) fs)" "take (Suc k) fs ! k = fs ! k"
    using assms(1,2) by simp_all
  have a: "cg_type_environment (fold cg_visit_function (take (Suc k) fs) G) g = None"
    using fold_cg_visit_function_declared [OF k(1)] assms(3) k(2) by simp
  have k': "k < length (take j fs)" "take j fs ! k = fs ! k"
    using assms(1,2) by simp_all
  have b: "cg_type_environment (fold cg_visit_function (take j fs) G) g = None"
    using fold_cg_visit_function_declared [OF k'(1)] assms(3) k'(2) by simp
  have "local_type_env (fs ! j) g = None"
    using local_type_env_dom [of "fs ! j"] assms(4) by (auto simp: dom_def)
  then have "cg_type_environment
           (fold cg_visit_statement ss
              (function_entry (fs ! j) (fold cg_visit_function (take j fs) G))) g = None"
    using b
    by (simp add: fold_preserves [where Q = cg_type_environment]
        cg_visit_statement_type_environment function_entry_type_environment map_add_def)
  then show ?thesis using a dot_unknown_type by blast
qed

text \<open>
  The program \<^verbatim>\<open>struct S { int a; int b; }; struct S g; fun f() void { int g; }
  fun main() int { print g.b; return 0; }\<close>: in \<^verbatim>\<open>main\<close>, the load of \<^verbatim>\<open>g.b\<close> is
  generated at offset 0. Without the function \<^verbatim>\<open>f\<close> it is generated at offset 4.
\<close>

theorem shadowed_global_loses_type_witness:
  "(0::nat) < 1 \<and>
   ''g'' \<in> set (declared_names (Function ''f'' [] [Declaration ''g'' IntType 3] ReturnTypeVoid [] 3)) \<and>
   ''g'' \<notin> set (declared_names (Function ''main'' [] [] (ReturnTypeReal IntType)
        [PrintStatement (DotExpression (IdentifierExpression ''g'' 5) ''b'' 5) 5,
         ReturnStatement (IntegerExpression 0 6) 6] 4)) \<and>
   cg_visit_expression
     (fold cg_visit_statement []
        (function_entry
           ([Function ''f'' [] [Declaration ''g'' IntType 3] ReturnTypeVoid [] 3,
             Function ''main'' [] [] (ReturnTypeReal IntType)
               [PrintStatement (DotExpression (IdentifierExpression ''g'' 5) ''b'' 5) 5,
                ReturnStatement (IntegerExpression 0 6) 6] 4] ! 1)
           (fold cg_visit_function
              (take 1
                 [Function ''f'' [] [Declaration ''g'' IntType 3] ReturnTypeVoid [] 3,
                  Function ''main'' [] [] (ReturnTypeReal IntType)
                    [PrintStatement (DotExpression (IdentifierExpression ''g'' 5) ''b'' 5) 5,
                     ReturnStatement (IntegerExpression 0 6) 6] 4])
              (program_header
                 (Program
                    [TypeDeclaration ''S'' [Declaration ''a'' IntType 1, Declaration ''b'' IntType 1] 1]
                    [Declaration ''g'' (StructType ''S'' 2) 2]
                    [Function ''f'' [] [Declaration ''g'' IntType 3] ReturnTypeVoid [] 3,
                     Function ''main'' [] [] (ReturnTypeReal IntType)
                       [PrintStatement (DotExpression (IdentifierExpression ''g'' 5) ''b'' 5) 5,
                        ReturnStatement (IntegerExpression 0 6) 6] 4])
                 CodeGenVisitor_init))))
     (DotExpression (IdentifierExpression ''g'' 5) ''b'' 5) =
   [''    la t1, global_g'', ''    lw t0, 0(t1)'', ''    mv t2, t0  # Save struct pointer'',
    ''    lw t0, 0(t2)  # Load field b (unknown struct type)'']"
  using shadowed_global_loses_type [of 0 1
      "[Function ''f'' [] [Declaration ''g'' IntType 3] ReturnTypeVoid [] 3,
        Function ''main'' [] [] (ReturnTypeReal IntType)
          [PrintStatement (DotExpression (IdentifierExpression ''g'' 5) ''b'' 5) 5,
           ReturnStatement (IntegerExpression 0 6) 6] 4]"
      "''g''"
      "program_header
         (Program
            [TypeDeclaration ''S'' [Declaration ''a'' IntType 1, Declaration ''b'' IntType 1] 1]
            [Declaration ''g'' (StructType ''S'' 2) 2]
            [Function ''f'' [] [Declaration ''g'' IntType 3] ReturnTypeVoid [] 3,
             Function ''main'' [] [] (ReturnTypeReal IntType)
               [PrintStatement (DotExpression (IdentifierExpression ''g'' 5) ''b'' 5) 5,
                ReturnStatement (IntegerExpression 0 6) 6] 4])
         CodeGenVisitor_init"
      "[]" 5 "''b''" 5]
  by (simp add: cg_defs str_int_eval declared_names_def)

lemma shadowed_global_whole_program:
  "cg_output (cg_visit_program
     (Program
        [TypeDeclaration ''S'' [Declaration ''a'' IntType 1, Declaration ''b'' IntType 1] 1]
        [Declaration ''g'' (StructType ''S'' 2) 2]
        [Function ''f'' [] [Declaration ''g'' IntType 3] ReturnTypeVoid [] 3,
         Function ''main'' [] [] (ReturnTypeReal IntType)
           [PrintStatement (DotExpression (IdentifierExpression ''g'' 5) ''b'' 5) 5,
            ReturnStatement (IntegerExpression 0 6) 6] 4])
     CodeGenVisitor_init) =
   [''.globl main'', ''.import berkeley_utils.s'', [], ''.data'', ''global_g: .space 4'', [],
    ''.text'', [],
    ''f:'', ''    addi sp, sp, -8'', ''    sw ra, 4(sp)'', ''    sw fp, 0(sp)'',
    ''    addi fp, sp, 0'', ''    addi sp, sp, -4'', ''    # Implicit return'',
    ''    addi sp, sp, 4'', ''    lw fp, 0(sp)'', ''    lw ra, 4(sp)'', ''    addi sp, sp, 8'',
    ''    jr ra'', [],
    ''main:'', ''    addi sp, sp, -8'', ''    sw ra, 4(sp)'', ''    sw fp, 0(sp)'',
    ''    addi fp, sp, 0'', ''    la t1, global_g'', ''    lw t0, 0(t1)'',
    ''    mv t2, t0  # Save struct pointer'',
    ''    lw t0, 0(t2)  # Load field b (unknown struct type)'',
    ''    mv a0, t0'', ''    jal print_int'',
    ''    li t0, 0'', ''    mv a0, t0'', ''    lw fp, 0(sp)'', ''    lw ra, 4(sp)'',
    ''    addi sp, sp, 8'', ''    jal exit'', []]"
  by (simp add: cg_defs str_int_eval)

lemma unshadowed_global_whole_program:
  "cg_output (cg_visit_program
     (Program
        [TypeDeclaration ''S'' [Declaration ''a'' IntType 1, Declaration ''b'' IntType 1] 1]
        [Declaration ''g'' (StructType ''S'' 2) 2]
        [Function ''main'' [] [] (ReturnTypeReal IntType)
           [PrintStatement (DotExpression (IdentifierExpression ''g'' 5) ''b'' 5) 5,
            ReturnStatement (IntegerExpression 0 6) 6] 4])
     CodeGenVisitor_init) =
   [''.globl main'', ''.import berkeley_utils.s'', [], ''.data'', ''global_g: .space 4'', [],
    ''.text'', [],
    ''main:'', ''    addi sp, sp, -8'', ''    sw ra, 4(sp)'', ''    sw fp, 0(sp)'',
    ''    addi fp, sp, 0'', ''    la t1, global_g'', ''    lw t0, 0(t1)'',
    ''    mv t2, t0  # Save struct pointer'',
    ''    lw t0, 4(t2)  # Load field b'',
    ''    mv a0, t0'', ''    jal print_int'',
    ''    li t0, 0'', ''    mv a0, t0'', ''    lw fp, 0(sp)'', ''    lw ra, 4(sp)'',
    ''    addi sp, sp, 8'', ''    jal exit'', []]"
  by (simp add: cg_defs str_int_eval)

subsection \<open>The implicit return\<close>

lemma fold_slot_step_total:
  "snd (snd (fold slot_step ds (m, off, tot))) = tot + 4 * int (length ds)"
  by (induction ds arbitrary: m off tot) (simp_all add: slot_step_def)

lemma total_locals_size_eq:
  "total_locals_size func = 4 * int (length (f_params func) + length (f_locals func))"
proof -
  obtain m off tot where p: "fold slot_step (f_params func) (Map.empty, 0, 0) = (m, off, tot)"
    by (cases "fold slot_step (f_params func) (Map.empty, 0, 0)")
  have "tot = 4 * int (length (f_params func))"
    using fold_slot_step_total [of "f_params func" Map.empty 0 0] p by simp
  then show ?thesis
    by (simp add: total_locals_size_def allocate_slots_def p fold_slot_step_total)
qed

text \<open>
  C8. The output of \<^verbatim>\<open>visit_function\<close> is the output up to the end of the body,
  followed, when the body is empty or its last statement is not a return, by the
  implicit return, and then by an empty line. For \<^verbatim>\<open>main\<close> the implicit return frees
  the slots, reloads \<^verbatim>\<open>fp\<close> and \<^verbatim>\<open>ra\<close>, pops the two saved words, loads 0 into
  \<^verbatim>\<open>a0\<close> and calls \<^verbatim>\<open>exit\<close>; for any other function it ends in \<^verbatim>\<open>jr ra\<close>. When the
  last statement is a return, nothing is added but the empty line.
\<close>

theorem implicit_epilogue:
  "cg_output (cg_visit_function func G) =
     cg_output (function_body func (function_entry func G)) @
     (if f_body func = [] \<or> \<not> is_return (last (f_body func)) then
        (if f_name func = ''main'' then
           [''    # Implicit return from main'']
           @ (if f_params func @ f_locals func \<noteq> []
              then [''    addi sp, sp, '' @
                      str_int (4 * int (length (f_params func) + length (f_locals func)))]
              else [])
           @ [''    lw fp, 0(sp)'', ''    lw ra, 4(sp)'', ''    addi sp, sp, 8'',
              ''    li a0, 0'', ''    jal exit'']
         else
           [''    # Implicit return'']
           @ (if f_params func @ f_locals func \<noteq> []
              then [''    addi sp, sp, '' @
                      str_int (4 * int (length (f_params func) + length (f_locals func)))]
              else [])
           @ [''    lw fp, 0(sp)'', ''    lw ra, 4(sp)'', ''    addi sp, sp, 8'',
              ''    jr ra''])
      else [])
     @ [[]]"
proof -
  have "(0 < total_locals_size func) = (f_params func @ f_locals func \<noteq> [])"
    by (cases "f_params func"; cases "f_locals func") (simp_all add: total_locals_size_eq)
  then show ?thesis
    by (simp add: cg_visit_function_def function_exit_def implicit_return_def
        total_locals_size_eq)
qed

text \<open>The function \<^verbatim>\<open>fun f(int a) void { print a; }\<close>.\<close>

theorem implicit_epilogue_witness:
  "(f_body (Function ''f'' [Declaration ''a'' IntType 1] [] ReturnTypeVoid
              [PrintStatement (IdentifierExpression ''a'' 2) 2] 1) = [] \<or>
    \<not> is_return (last (f_body (Function ''f'' [Declaration ''a'' IntType 1] [] ReturnTypeVoid
              [PrintStatement (IdentifierExpression ''a'' 2) 2] 1)))) \<and>
   cg_output (cg_visit_function
      (Function ''f'' [Declaration ''a'' IntType 1] [] ReturnTypeVoid
              [PrintStatement (IdentifierExpression ''a'' 2) 2] 1) CodeGenVisitor_init) =
   [''f:'', ''    addi sp, sp, -8'', ''    sw ra, 4(sp)'', ''    sw fp, 0(sp)'',
    ''    addi fp, sp, 0'', ''    addi sp, sp, -4'', ''    sw a0, -4(fp)'',
    ''    lw t0, -4(fp)'', ''    mv a0, t0'', ''    jal print_int'',
    ''    # Implicit return'', ''    addi sp, sp, 4'', ''    lw fp, 0(sp)'',
    ''    lw ra, 4(sp)'', ''    addi sp, sp, 8'', ''    jr ra'', []]"
  using implicit_epilogue [of
      "Function ''f'' [Declaration ''a'' IntType 1] [] ReturnTypeVoid
              [PrintStatement (IdentifierExpression ''a'' 2) 2] 1" CodeGenVisitor_init]
  by (simp add: cg_defs str_int_eval)

subsection \<open>Import declarations\<close>

lemma import_line_first: "c \<noteq> CHR ''.'' \<Longrightarrow> import_line (c # l) = False"
  by (simp add: import_line_def)

lemma import_line_Nil [simp]: "import_line [] = False"
  by (simp add: import_line_def)

lemma import_line_label [simp]: "import_line (x @ '':'') = False"
proof -
  have "\<not> suffix ''.s'' (x @ '':'')"
    by (auto simp: suffix_def append_eq_append_conv2 Cons_eq_append_conv append_eq_Cons_conv)
  then show ?thesis by (simp add: import_line_def)
qed

lemma filter_import_binary_operation: "filter import_line (binary_operation op) = []"
  by (simp add: binary_operation_def import_line_first)

lemma filter_import_unary_operation: "filter import_line (unary_operation op) = []"
  by (simp add: unary_operation_def import_line_first)

lemma filter_import_load_field: "filter import_line (load_field G sn fld) = []"
  by (simp add: load_field_def import_line_first split: option.split)

lemma filter_import_expression:
  "filter import_line (cg_visit_expression G e) = []"
  "filter import_line (cg_visit_arguments G i args) = []"
  by (induction G e and G i args rule: cg_visit_expression_cg_visit_arguments.induct)
     (simp_all add: import_line_first filter_import_binary_operation
        filter_import_unary_operation filter_import_load_field split: option.split)

lemma filter_import_lvalue:
  "filter import_line (generate_lvalue_address G l) = []"
  by (induction G l rule: generate_lvalue_address.induct)
     (simp_all add: import_line_first split: option.split)

lemma filter_import_restore_frame: "filter import_line (restore_frame n) = []"
  by (simp add: restore_frame_def import_line_first)

lemma fold_preserves_filter:
  "(\<And>x G. x \<in> set xs \<Longrightarrow> filter P (cg_output (f x G)) = filter P (cg_output G)) \<Longrightarrow>
   filter P (cg_output (fold f xs G)) = filter P (cg_output G)"
  by (induction xs arbitrary: G) simp_all

lemma filter_import_statement:
  "filter import_line (cg_output (cg_visit_statement s G)) = filter import_line (cg_output G)"
proof (induction s arbitrary: G)
  case (BlockStatement ss)
  then show ?case by (simp add: fold_preserves_filter)
next
  case (ConditionalStatement guard then_block else_block ln)
  show ?case
  proof (cases else_block)
    case None
    then show ?thesis using ConditionalStatement(1)
      by (simp add: Label_def import_line_first filter_import_expression)
  next
    case (Some eb)
    have eb: "\<And>G. filter import_line (cg_output (cg_visit_statement eb G)) =
                   filter import_line (cg_output G)"
      using ConditionalStatement(2) Some by simp
    show ?thesis
    proof (cases eb)
      case (BlockStatement ss)
      then show ?thesis
        using ConditionalStatement(1) Some eb
        by (simp add: Label_def import_line_first filter_import_expression)
    qed (use ConditionalStatement(1) Some in
          \<open>simp_all add: Label_def import_line_first filter_import_expression\<close>)
  qed
next
  case (WhileStatement guard body ln)
  then show ?case by (simp add: Label_def import_line_first filter_import_expression)
qed (simp_all add: import_line_first filter_import_expression filter_import_lvalue
       filter_import_restore_frame)


lemma filter_import_save_params: "filter import_line (save_params G i ps) = []"
proof (induction G i ps rule: save_params.induct)
  case (1 G i)
  show ?case by simp
next
  case (2 G i param params)
  have line: "\<And>x y. \<not> import_line (''    sw a'' @ x @ '', '' @ y @ ''(fp)'')"
    by (simp add: import_line_first)
  show ?case
    using 2 line by (cases "i < 8"; cases "cg_locals G (d_name param)") simp_all
qed

lemma filter_import_function_entry:
  "filter import_line (cg_output (function_entry func G)) = filter import_line (cg_output G)"
  by (simp add: function_entry_def Let_def import_line_first filter_import_save_params)

lemma filter_import_implicit_return: "filter import_line (implicit_return func) = []"
  by (simp add: implicit_return_def import_line_first)

lemma filter_import_function:
  "filter import_line (cg_output (cg_visit_function func G)) = filter import_line (cg_output G)"
  by (simp add: cg_visit_function_def function_exit_def function_body_def
      filter_import_implicit_return fold_preserves_filter filter_import_statement
      filter_import_function_entry)

lemma cg_output_calculate_struct_layout [simp]:
  "cg_output (calculate_struct_layout t G) = cg_output G"
  by (simp add: calculate_struct_layout_def split: prod.split)

lemma filter_import_global_slot:
  "filter import_line (cg_output (global_slot d G)) = filter import_line (cg_output G)"
  by (simp add: global_slot_def import_line_first)

lemma cg_output_fold_layout:
  "cg_output (fold calculate_struct_layout ts G) = cg_output G"
  by (induction ts arbitrary: G) simp_all

lemma import_line_berkeley: "import_line ''.import berkeley_utils.s''"
  by (simp add: import_line_def suffix_to_prefix)

lemma import_line_read_int: "import_line ''.import read_int.s''"
  by (simp add: import_line_def suffix_to_prefix)

lemma import_line_directives:
  "import_line ''.data'' = False" "import_line ''.text'' = False"
  "import_line ''.globl main'' = False"
  by (simp_all add: import_line_def)

lemma filter_import_program_header:
  "filter import_line (cg_output (program_header prog G)) =
   filter import_line (cg_output G) @
   ''.import berkeley_utils.s'' #
   (if check_for_read prog then [''.import read_int.s''] else [])"
  by (simp add: program_header_def Let_def fold_preserves_filter filter_import_global_slot
      cg_output_fold_layout import_line_first import_line_berkeley import_line_read_int
      import_line_directives)

text \<open>
  C6, as the claim states it, fails: the program \<^verbatim>\<open>fun main() int { return 0; }\<close> has
  no \<^verbatim>\<open>new\<close>, no print and no read, and its assembly has the line
  \<^verbatim>\<open>.import berkeley_utils.s\<close>.
\<close>

theorem import_lines_counterexample:
  "cg_output (cg_visit_program
     (Program [] []
        [Function ''main'' [] [] (ReturnTypeReal IntType)
           [ReturnStatement (IntegerExpression 0 2) 2] 1])
     CodeGenVisitor_init) =
   [''.globl main'', ''.import berkeley_utils.s'', [], ''.data'', [], ''.text'', [],
    ''main:'', ''    addi sp, sp, -8'', ''    sw ra, 4(sp)'', ''    sw fp, 0(sp)'',
    ''    addi fp, sp, 0'', ''    li t0, 0'', ''    mv a0, t0'', ''    lw fp, 0(sp)'',
    ''    lw ra, 4(sp)'', ''    addi sp, sp, 8'', ''    jal exit'', []]"
  by (simp add: cg_defs str_int_eval)

text \<open>
  C6, amended. The import declarations in the assembly of any program are
  \<^verbatim>\<open>.import berkeley_utils.s\<close>, always, and after it \<^verbatim>\<open>.import read_int.s\<close> exactly
  when the scan \<^verbatim>\<open>_check_for_read\<close> finds a read expression in a function body; there
  is no other import declaration.
\<close>

theorem import_lines:
  "filter import_line (cg_output (cg_visit_program prog CodeGenVisitor_init)) =
   ''.import berkeley_utils.s'' #
   (if check_for_read prog then [''.import read_int.s''] else [])"
  by (simp add: cg_visit_program_def fold_preserves_filter filter_import_function
      filter_import_program_header CodeGenVisitor_init_def)

end
